theory Spec2Isabelle
  imports Complex_Main "HOL-Library.Word" "HOL-Library.Sublist"
begin

section \<open>MediaSearch: ingest, orchestrator, triage and query layer\<close>

text \<open>
  A shallow embedding of the TypeScript services of the repository
  (\<^verbatim>\<open>IngestService\<close>, \<^verbatim>\<open>OrchestratorService\<close>, \<^verbatim>\<open>TriageService\<close>), of the
  helpers of the domain package (\<^verbatim>\<open>computeVersionId\<close>, \<^verbatim>\<open>isSupportedMediaFormat\<close>,
  \<^verbatim>\<open>calculateBackoffDelay\<close>) and of the adapters the services run on: the
  PostgreSQL adapter with the SQL functions of the migration, the BullMQ queue adapter and
  the search methods of the VAST DataBase adapter.

  Conventions of the model.
  \<^item> A table is the list of its rows. Every adapter method issues its statement through
    \<^verbatim>\<open>this.pool.query\<close>, so a statement is a function from the committed database to the
    committed database; a statement that PostgreSQL can reject returns the error or the new
    database.
  \<^item> JavaScript strings are \<open>string\<close>; a character is one 8-bit code unit, which is exact
    for ASCII keys and messages.
  \<^item> JavaScript numbers that hold scores, weights and the random jitter are \<open>real\<close>;
    counters and sizes are \<open>nat\<close> or \<open>int\<close>. The 32-bit hash is a \<open>32 word\<close>.
  \<^item> \<^verbatim>\<open>Date.now()\<close>, \<^verbatim>\<open>Math.random()\<close> and \<^verbatim>\<open>randomUUID()\<close> are explicit
    arguments of the function that calls them.
\<close>

subsection \<open>Enumerations (types/enums.ts)\<close>

datatype AssetStatus =
    INGESTED | TRANSCRIBING | TRANSCRIBED | INDEXED | INDEX_PARTIAL | DELETED
  | QUARANTINED | SKIPPED | PENDING_RETRY | FAILED | BUILDING | READY_TO_PUBLISH
  | PUBLISHED | ARCHIVED_status

datatype Visibility = STAGING | ACTIVE | ARCHIVED | SOFT_DELETED

datatype TriageState = NEEDS_MEDIA_FIX | NEEDS_ENGINE_TUNING | QUARANTINED_triage

datatype ASREngine = NVIDIA_NIMS | WHISPER | BYO | STUB

datatype ChunkingStrategy = SENTENCE | FIXED_WINDOW

datatype ExecutionMode = CPU | GPU

datatype MatchType = keyword | semantic | hybrid

subsection \<open>Entities (types/entities.ts)\<close>

record MediaAsset =
  asset_id :: string
  lineage_id :: string
  bucket :: string
  object_key :: string
  current_version_id :: "string option"
  status :: AssetStatus
  triage_state :: "TriageState option"
  recommended_action :: "string option"
  transcription_engine :: ASREngine
  last_error :: "string option"
  attempt :: nat
  file_size :: int
  content_type :: string
  etag :: string
  tombstone :: bool

record AssetVersion =
  version_id :: string
  v_asset_id :: string
  v_status :: AssetStatus
  publish_state :: Visibility
  v_etag :: string
  v_file_size :: int

record TranscriptSegment =
  segment_id :: string
  s_asset_id :: string
  s_version_id :: string
  start_ms :: int
  end_ms :: int
  s_text :: string
  speaker :: "string option"
  confidence :: real
  s_visibility :: Visibility
  s_created_at :: int

record TranscriptEmbedding =
  embedding_id :: string
  e_asset_id :: string
  e_version_id :: string
  e_segment_id :: string
  embedding :: "real list"
  e_visibility :: Visibility

record EnginePolicy =
  engine :: ASREngine
  diarization_enabled :: bool
  execution_mode :: ExecutionMode
  compute_threshold_seconds :: nat
  force_chunking_strategy :: "ChunkingStrategy option"

definition DEFAULT_ENGINE_POLICY :: EnginePolicy where
  "DEFAULT_ENGINE_POLICY =
     \<lparr>engine = NVIDIA_NIMS, diarization_enabled = True, execution_mode = GPU,
      compute_threshold_seconds = 300, force_chunking_strategy = None\<rparr>"

record TranscriptionJob =
  job_id :: string
  j_asset_id :: string
  j_version_id :: string
  engine_policy :: EnginePolicy
  j_attempt :: nat
  idempotency_key :: string
  enqueued_at :: int
  scheduled_at :: int

subsection \<open>JavaScript string primitives\<close>

definition toLowerCase_char :: "char \<Rightarrow> char" where
  "toLowerCase_char c =
     (case map_of (zip ''ABCDEFGHIJKLMNOPQRSTUVWXYZ'' ''abcdefghijklmnopqrstuvwxyz'') c of
        Some l \<Rightarrow> l
      | None \<Rightarrow> c)"

definition toLowerCase :: "string \<Rightarrow> string" where
  "toLowerCase s = map toLowerCase_char s"

text \<open>\<^verbatim>\<open>s.includes(sub)\<close>: \<open>sub\<close> occurs in \<open>s\<close> as a contiguous substring.\<close>

fun str_includes :: "string \<Rightarrow> string \<Rightarrow> bool" where
  "str_includes [] sub = (sub = [])"
| "str_includes (c # cs) sub = (prefix sub (c # cs) \<or> str_includes cs sub)"

text \<open>\<^verbatim>\<open>s.split(sep)\<close> for a one-character separator; the result is never empty.\<close>

fun split_acc :: "char \<Rightarrow> string \<Rightarrow> string \<Rightarrow> string list" where
  "split_acc sep cur [] = [rev cur]"
| "split_acc sep cur (c # cs) =
     (if c = sep then rev cur # split_acc sep [] cs else split_acc sep (c # cur) cs)"

definition split :: "char \<Rightarrow> string \<Rightarrow> string list" where
  "split sep s = split_acc sep [] s"

text \<open>Digits of a natural number in base \<open>b\<close>, most significant first.\<close>

fun digits_of :: "nat \<Rightarrow> nat \<Rightarrow> nat list" where
  "digits_of b n = (if b < 2 \<or> n < b then [n] else digits_of b (n div b) @ [n mod b])"

declare digits_of.simps [simp del]

definition digit_char :: "nat \<Rightarrow> char" where
  "digit_char d = ''0123456789abcdefghijklmnopqrstuvwxyz'' ! d"

text \<open>\<^verbatim>\<open>n.toString(36)\<close> and \<^verbatim>\<open>String(n)\<close> for integers.\<close>

definition toString36 :: "nat \<Rightarrow> string" where
  "toString36 n = map digit_char (digits_of 36 n)"

definition toString10 :: "int \<Rightarrow> string" where
  "toString10 i =
     (if i < 0 then CHR ''-'' # map digit_char (digits_of 10 (nat (- i)))
      else map digit_char (digits_of 10 (nat i)))"

subsection \<open>storage.port.ts: version ids and supported formats\<close>

text \<open>
  The loop of \<^verbatim>\<open>computeVersionId\<close>:
  \<^verbatim>\<open>hash = ((hash << 5) - hash) + char; hash = hash & hash\<close>.
  The result of \<^verbatim>\<open>&\<close> is a 32-bit signed integer, so the loop is arithmetic on
  \<open>32 word\<close>.
\<close>

fun hash_loop :: "32 word \<Rightarrow> string \<Rightarrow> 32 word" where
  "hash_loop h [] = h"
| "hash_loop h (c # cs) = hash_loop ((push_bit 5 h - h) + of_nat (of_char c)) cs"

definition version_data :: "string \<Rightarrow> int \<Rightarrow> int \<Rightarrow> string" where
  "version_data etg sz mtime = etg @ '':'' @ toString10 sz @ '':'' @ toString10 mtime"

text \<open>
  \<^verbatim>\<open>return `v_${Math.abs(hash).toString(36)}_${Date.now().toString(36)}`\<close>.
  The last argument is the value of \<^verbatim>\<open>Date.now()\<close> at the call.
\<close>

definition computeVersionId :: "string \<Rightarrow> int \<Rightarrow> int \<Rightarrow> nat \<Rightarrow> string" where
  "computeVersionId etg sz mtime now =
     ''v_'' @ toString36 (nat \<bar>sint (hash_loop 0 (version_data etg sz mtime))\<bar>)
       @ ''_'' @ toString36 now"

definition SUPPORTED_AUDIO_FORMATS :: "string list" where
  "SUPPORTED_AUDIO_FORMATS = [''wav'', ''mp3'', ''aac'', ''flac'']"

definition SUPPORTED_VIDEO_FORMATS :: "string list" where
  "SUPPORTED_VIDEO_FORMATS = [''mp4'', ''mov'', ''mxf'']"

definition SUPPORTED_FORMATS :: "string list" where
  "SUPPORTED_FORMATS = SUPPORTED_AUDIO_FORMATS @ SUPPORTED_VIDEO_FORMATS"

text \<open>
  \<^verbatim>\<open>const ext = filename.split('.').pop()?.toLowerCase();
  return ext ? SUPPORTED_FORMATS.includes(ext) : false;\<close>
\<close>

definition isSupportedMediaFormat :: "string \<Rightarrow> bool" where
  "isSupportedMediaFormat filename =
     (let ext = toLowerCase (last (split (CHR ''.'') filename))
      in if ext \<noteq> [] then ext \<in> set SUPPORTED_FORMATS else False)"

subsection \<open>queue port: backoff\<close>

definition MAX_RETRY_ATTEMPTS :: nat where
  "MAX_RETRY_ATTEMPTS = 5"

text \<open>
  \<^verbatim>\<open>calculateBackoffDelay(attempt, baseDelayMs = 1000, maxDelayMs = 300000)\<close>; the last
  argument is the value of \<^verbatim>\<open>Math.random()\<close>, a number in \<open>[0, 1)\<close>.
\<close>

definition calculateBackoffDelay :: "nat \<Rightarrow> real \<Rightarrow> real \<Rightarrow> real \<Rightarrow> int" where
  "calculateBackoffDelay att baseDelayMs maxDelayMs random =
     (let exponentialDelay = baseDelayMs * 2 ^ att;
          cappedDelay = min exponentialDelay maxDelayMs;
          jitter = cappedDelay * 0.25 * (random * 2 - 1)
      in \<lfloor>cappedDelay + jitter\<rfloor>)"

subsection \<open>The database: tables of the migration 001_initial_schema.sql\<close>

record database =
  media_assets :: "MediaAsset list"
  asset_versions :: "AssetVersion list"
  transcript_segments :: "TranscriptSegment list"
  transcript_embeddings :: "TranscriptEmbedding list"

datatype error = Error string

text \<open>
  JavaScript truthiness of a nullable string: \<^verbatim>\<open>null\<close> and the empty string are falsy.
\<close>

definition truthy :: "string option \<Rightarrow> bool" where
  "truthy v = (case v of None \<Rightarrow> False | Some s \<Rightarrow> s \<noteq> [])"

subsection \<open>PostgresDatabaseAdapter: assets and versions\<close>

text \<open>\<^verbatim>\<open>SELECT * FROM media_assets WHERE asset_id = $1\<close>, first row or null.\<close>

definition getAsset :: "database \<Rightarrow> string \<Rightarrow> MediaAsset option" where
  "getAsset d assetId = find (\<lambda>a. asset_id a = assetId) (media_assets d)"

text \<open>\<^verbatim>\<open>SELECT * FROM media_assets WHERE bucket = $1 AND object_key = $2\<close>.\<close>

definition getAssetByKey :: "database \<Rightarrow> string \<Rightarrow> string \<Rightarrow> MediaAsset option" where
  "getAssetByKey d bkt objectKey =
     find (\<lambda>a. bucket a = bkt \<and> object_key a = objectKey) (media_assets d)"

text \<open>
  \<^verbatim>\<open>INSERT INTO media_assets ... ON CONFLICT (bucket, object_key) DO UPDATE SET ... RETURNING *\<close>.
  The conflict target is \<^verbatim>\<open>unique_bucket_key\<close>; a row with the same primary key
  \<^verbatim>\<open>asset_id\<close> under another key violates the primary key and the statement throws.
\<close>

definition upsert_row :: "MediaAsset \<Rightarrow> MediaAsset \<Rightarrow> MediaAsset" where
  "upsert_row new old =
     old\<lparr>current_version_id := current_version_id new, status := status new,
         triage_state := triage_state new, recommended_action := recommended_action new,
         transcription_engine := transcription_engine new, last_error := last_error new,
         attempt := attempt new, file_size := file_size new,
         content_type := content_type new, etag := etag new, tombstone := tombstone new\<rparr>"

definition upsertAsset :: "database \<Rightarrow> MediaAsset \<Rightarrow> error + database \<times> MediaAsset" where
  "upsertAsset d asset =
     (case getAssetByKey d (bucket asset) (object_key asset) of
        Some old \<Rightarrow>
          Inr (d\<lparr>media_assets :=
                   map (\<lambda>a. if bucket a = bucket asset \<and> object_key a = object_key asset
                            then upsert_row asset a else a) (media_assets d)\<rparr>,
               upsert_row asset old)
      | None \<Rightarrow>
          (if getAsset d (asset_id asset) \<noteq> None
           then Inl (Error ''duplicate key value violates unique constraint media_assets_pkey'')
           else Inr (d\<lparr>media_assets := media_assets d @ [asset]\<rparr>, asset)))"

text \<open>
  The optional fields of \<^verbatim>\<open>updateAssetStatus\<close>. A field may be absent
  (\<^verbatim>\<open>undefined\<close>, here \<open>None\<close>), \<^verbatim>\<open>null\<close> (\<open>Some None\<close>) or a value. The
  PostgreSQL adapter tests \<^verbatim>\<open>!== undefined\<close>, so \<^verbatim>\<open>null\<close> is written to the column.
\<close>

record StatusOptions =
  triageState :: "TriageState option option"
  lastError :: "string option option"
  attemptOpt :: "nat option"
  recommendedAction :: "string option option"

definition no_options :: StatusOptions where
  "no_options = \<lparr>triageState = None, lastError = None, attemptOpt = None,
                  recommendedAction = None\<rparr>"

definition or_keep :: "'a option \<Rightarrow> 'a \<Rightarrow> 'a" where
  "or_keep v old = (case v of None \<Rightarrow> old | Some x \<Rightarrow> x)"

definition update_status_row :: "AssetStatus \<Rightarrow> StatusOptions \<Rightarrow> MediaAsset \<Rightarrow> MediaAsset" where
  "update_status_row st opts a =
     a\<lparr>status := st,
       triage_state := or_keep (triageState opts) (triage_state a),
       last_error := or_keep (lastError opts) (last_error a),
       attempt := or_keep (attemptOpt opts) (attempt a),
       recommended_action := or_keep (recommendedAction opts) (recommended_action a)\<rparr>"

text \<open>
  The column \<^verbatim>\<open>media_assets.status\<close> has the SQL type \<^verbatim>\<open>asset_status\<close>. The
  adapter passes the string value of the TypeScript enum member as the parameter
  \<^verbatim>\<open>$2\<close>; PostgreSQL converts it to \<^verbatim>\<open>asset_status\<close> and rejects a string that is
  no label of the type, whether or not a row has the id.
\<close>

fun AssetStatus_value :: "AssetStatus \<Rightarrow> string" where
  "AssetStatus_value INGESTED = ''INGESTED''"
| "AssetStatus_value TRANSCRIBING = ''TRANSCRIBING''"
| "AssetStatus_value TRANSCRIBED = ''TRANSCRIBED''"
| "AssetStatus_value INDEXED = ''INDEXED''"
| "AssetStatus_value INDEX_PARTIAL = ''INDEX_PARTIAL''"
| "AssetStatus_value DELETED = ''DELETED''"
| "AssetStatus_value QUARANTINED = ''QUARANTINED''"
| "AssetStatus_value SKIPPED = ''SKIPPED''"
| "AssetStatus_value PENDING_RETRY = ''PENDING_RETRY''"
| "AssetStatus_value FAILED = ''FAILED''"
| "AssetStatus_value BUILDING = ''BUILDING''"
| "AssetStatus_value READY_TO_PUBLISH = ''READY_TO_PUBLISH''"
| "AssetStatus_value PUBLISHED = ''PUBLISHED''"
| "AssetStatus_value ARCHIVED_status = ''ARCHIVED''"

text \<open>\<^verbatim>\<open>CREATE TYPE asset_status AS ENUM (...)\<close> of the migration.\<close>

definition asset_status_labels :: "string list" where
  "asset_status_labels =
     [''INGESTED'', ''TRANSCRIBING'', ''TRANSCRIBED'', ''INDEXED'', ''INDEX_PARTIAL'',
      ''DELETED'', ''QUARANTINED'', ''SKIPPED'', ''ERROR_RETRYABLE'', ''EMBEDDING_RETRYABLE'',
      ''BUILDING'', ''READY_TO_PUBLISH'', ''PUBLISHED'', ''ARCHIVED'']"

definition invalid_enum_value :: "string \<Rightarrow> error" where
  "invalid_enum_value label =
     Error (''invalid input value for enum asset_status: '' @ [CHR 0x22] @ label @ [CHR 0x22])"

text \<open>\<^verbatim>\<open>UPDATE media_assets SET status = $2, ... WHERE asset_id = $1\<close>.\<close>

definition updateAssetStatus ::
    "string \<Rightarrow> AssetStatus \<Rightarrow> StatusOptions \<Rightarrow> database \<Rightarrow> error + database" where
  "updateAssetStatus assetId st opts d =
     (if AssetStatus_value st \<notin> set asset_status_labels
      then Inl (invalid_enum_value (AssetStatus_value st))
      else Inr (d\<lparr>media_assets :=
                   map (\<lambda>a. if asset_id a = assetId then update_status_row st opts a else a)
                     (media_assets d)\<rparr>))"

text \<open>
  \<^verbatim>\<open>UPDATE media_assets SET tombstone = true, status = 'DELETED',
  current_version_id = NULL WHERE asset_id = $1\<close>.
\<close>

definition tombstoneAsset :: "string \<Rightarrow> database \<Rightarrow> database" where
  "tombstoneAsset assetId d =
     d\<lparr>media_assets :=
         map (\<lambda>a. if asset_id a = assetId
                  then a\<lparr>tombstone := True, status := DELETED, current_version_id := None\<rparr>
                  else a) (media_assets d)\<rparr>"

definition setCurrentVersion :: "string \<Rightarrow> string \<Rightarrow> database \<Rightarrow> database" where
  "setCurrentVersion assetId versionId d =
     d\<lparr>media_assets :=
         map (\<lambda>a. if asset_id a = assetId then a\<lparr>current_version_id := Some versionId\<rparr>
                  else a) (media_assets d)\<rparr>"

text \<open>\<^verbatim>\<open>SELECT * FROM asset_versions WHERE version_id = $1\<close>.\<close>

definition getVersion :: "database \<Rightarrow> string \<Rightarrow> AssetVersion option" where
  "getVersion d versionId = find (\<lambda>v. version_id v = versionId) (asset_versions d)"

text \<open>
  \<^verbatim>\<open>INSERT INTO asset_versions ...\<close>: \<^verbatim>\<open>version_id\<close> is the primary key and
  \<^verbatim>\<open>asset_id\<close> references \<^verbatim>\<open>media_assets\<close>; a violation throws.
\<close>

definition createVersion :: "database \<Rightarrow> AssetVersion \<Rightarrow> error + database" where
  "createVersion d version =
     (if getVersion d (version_id version) \<noteq> None
      then Inl (Error ''duplicate key value violates unique constraint asset_versions_pkey'')
      else if getAsset d (v_asset_id version) = None
      then Inl (Error ''insert violates foreign key constraint on asset_id'')
      else Inr (d\<lparr>asset_versions := asset_versions d @ [version]\<rparr>))"

subsection \<open>PostgresDatabaseAdapter: segments and embeddings\<close>

text \<open>
  \<^verbatim>\<open>UPDATE transcript_segments SET visibility = $3 WHERE asset_id = $1 AND version_id = $2\<close>.
\<close>

definition updateSegmentVisibility ::
    "string \<Rightarrow> string \<Rightarrow> Visibility \<Rightarrow> database \<Rightarrow> database" where
  "updateSegmentVisibility assetId versionId vis d =
     d\<lparr>transcript_segments :=
         map (\<lambda>s. if s_asset_id s = assetId \<and> s_version_id s = versionId
                  then s\<lparr>s_visibility := vis\<rparr> else s) (transcript_segments d)\<rparr>"

definition softDeleteSegments :: "string \<Rightarrow> database \<Rightarrow> database" where
  "softDeleteSegments assetId d =
     d\<lparr>transcript_segments :=
         map (\<lambda>s. if s_asset_id s = assetId then s\<lparr>s_visibility := SOFT_DELETED\<rparr> else s)
           (transcript_segments d)\<rparr>"

definition updateEmbeddingVisibility ::
    "string \<Rightarrow> string \<Rightarrow> Visibility \<Rightarrow> database \<Rightarrow> database" where
  "updateEmbeddingVisibility assetId versionId vis d =
     d\<lparr>transcript_embeddings :=
         map (\<lambda>e. if e_asset_id e = assetId \<and> e_version_id e = versionId
                  then e\<lparr>e_visibility := vis\<rparr> else e) (transcript_embeddings d)\<rparr>"

definition softDeleteEmbeddings :: "string \<Rightarrow> database \<Rightarrow> database" where
  "softDeleteEmbeddings assetId d =
     d\<lparr>transcript_embeddings :=
         map (\<lambda>e. if e_asset_id e = assetId then e\<lparr>e_visibility := SOFT_DELETED\<rparr> else e)
           (transcript_embeddings d)\<rparr>"

text \<open>
  The adapter methods above run on \<^verbatim>\<open>this.pool\<close>, not on the client that
  \<^verbatim>\<open>beginTransaction\<close> checked out and sent \<^verbatim>\<open>BEGIN\<close> to. Each statement therefore
  commits on its own, and the \<^verbatim>\<open>COMMIT\<close> or \<^verbatim>\<open>ROLLBACK\<close> that
  \<^verbatim>\<open>tx.execute\<close> sends on that client changes nothing. The states another connection
  can read while a sequence of statements runs are the states of its trace; when a
  statement throws, the database stays at the state reached before it.
\<close>

text \<open>
  What a statement that PostgreSQL can reject does to the committed database: nothing
  when it is rejected.
\<close>

definition committed :: "(database \<Rightarrow> error + database) \<Rightarrow> database \<Rightarrow> database" where
  "committed statement d = (case statement d of Inl e \<Rightarrow> d | Inr d' \<Rightarrow> d')"

fun trace :: "(database \<Rightarrow> database) list \<Rightarrow> database \<Rightarrow> database list" where
  "trace [] d = [d]"
| "trace (f # fs) d = d # trace fs (f d)"

definition run :: "(database \<Rightarrow> database) list \<Rightarrow> database \<Rightarrow> database" where
  "run fs d = fold (\<lambda>f. f) fs d"

subsection \<open>LocalQueueAdapter (Redis + BullMQ)\<close>

text \<open>
  A BullMQ queue holds its jobs under their job id. \<^verbatim>\<open>Queue.add(name, data, {jobId})\<close>
  with a custom \<^verbatim>\<open>jobId\<close> that the queue already holds adds nothing (the contract of the
  BullMQ library, which is not part of the repository); \<^verbatim>\<open>job.remove()\<close> deletes the
  entry. The adapter passes \<^verbatim>\<open>jobId: job.job_id\<close> for the main queue and
  \<^verbatim>\<open>jobId: `dlq_${job.job_id}`\<close> for the dead-letter queue.
\<close>

definition bull_add :: "string \<Rightarrow> 'a \<Rightarrow> (string \<times> 'a) list \<Rightarrow> (string \<times> 'a) list" where
  "bull_add jobId dat entries =
     (if jobId \<in> fst ` set entries then entries else entries @ [(jobId, dat)])"

definition bull_remove :: "string \<Rightarrow> (string \<times> 'a) list \<Rightarrow> (string \<times> 'a) list" where
  "bull_remove jobId entries = filter (\<lambda>(i, _). i \<noteq> jobId) entries"

record QueuedJob =
  job_data :: TranscriptionJob
  delay :: int

record DLQJob =
  dlq_job :: TranscriptionJob
  error_message :: string

record queues =
  queue :: "(string \<times> QueuedJob) list"
  dlqQueue :: "(string \<times> DLQJob) list"

definition enqueueJob :: "TranscriptionJob \<Rightarrow> queues \<Rightarrow> queues" where
  "enqueueJob job qs =
     qs\<lparr>queue := bull_add (job_id job) \<lparr>job_data = job, delay = 0\<rparr> (queue qs)\<rparr>"

definition enqueueJobWithDelay :: "TranscriptionJob \<Rightarrow> int \<Rightarrow> queues \<Rightarrow> queues" where
  "enqueueJobWithDelay job delayMs qs =
     qs\<lparr>queue := bull_add (job_id job) \<lparr>job_data = job, delay = delayMs\<rparr> (queue qs)\<rparr>"

definition ackJob :: "string \<Rightarrow> queues \<Rightarrow> queues" where
  "ackJob jobId qs = qs\<lparr>queue := bull_remove jobId (queue qs)\<rparr>"

definition moveToDLQ :: "TranscriptionJob \<Rightarrow> string \<Rightarrow> queues \<Rightarrow> queues" where
  "moveToDLQ job msg qs =
     qs\<lparr>dlqQueue := bull_add (''dlq_'' @ job_id job) \<lparr>dlq_job = job, error_message = msg\<rparr>
                      (dlqQueue qs),
        queue := bull_remove (job_id job) (queue qs)\<rparr>"

text \<open>The state the services act on: the database and the queues.\<close>

record system =
  db :: database
  q :: queues

subsection \<open>OrchestratorService\<close>

definition isRetryableError :: "string \<Rightarrow> bool" where
  "isRetryableError msg =
     (let message = toLowerCase msg in
      if str_includes message ''codec'' \<or> str_includes message ''corrupt''
           \<or> str_includes message ''invalid format'' \<or> str_includes message ''unsupported''
      then False
      else if str_includes message ''timeout'' \<or> str_includes message ''network''
           \<or> str_includes message ''connection'' \<or> str_includes message ''rate limit''
           \<or> str_includes message ''busy'' \<or> str_includes message ''unavailable''
      then True
      else True)"

definition determineTriageState :: "string \<Rightarrow> TriageState" where
  "determineTriageState msg =
     (let message = toLowerCase msg in
      if str_includes message ''codec'' \<or> str_includes message ''corrupt''
           \<or> str_includes message ''invalid format''
      then NEEDS_MEDIA_FIX
      else if str_includes message ''engine'' \<or> str_includes message ''model''
           \<or> str_includes message ''transcription''
      then NEEDS_ENGINE_TUNING
      else QUARANTINED_triage)"

fun getRecommendedAction :: "TriageState \<Rightarrow> string" where
  "getRecommendedAction NEEDS_MEDIA_FIX =
     ''Re-encode media file with supported codec or fix corruption''"
| "getRecommendedAction NEEDS_ENGINE_TUNING =
     ''Review ASR engine configuration or try alternative engine''"
| "getRecommendedAction QUARANTINED_triage = ''Manual investigation required''"

text \<open>
  \<^verbatim>\<open>publishVersion(assetId, versionId)\<close>: the statements that the function passed to
  \<^verbatim>\<open>tx.execute\<close> issues, in order. \<^verbatim>\<open>if (previousVersionId)\<close> is a truthiness test;
  the previous version is not compared with the new one.
\<close>

definition publishVersion_statements ::
    "database \<Rightarrow> string \<Rightarrow> string \<Rightarrow> (database \<Rightarrow> database) list" where
  "publishVersion_statements d assetId versionId =
     (let previousVersionId =
            (case getAsset d assetId of None \<Rightarrow> None | Some a \<Rightarrow> current_version_id a)
      in (if truthy previousVersionId
          then [updateSegmentVisibility assetId (the previousVersionId) ARCHIVED,
                updateEmbeddingVisibility assetId (the previousVersionId) ARCHIVED]
          else [])
         @ [updateSegmentVisibility assetId versionId ACTIVE,
            updateEmbeddingVisibility assetId versionId ACTIVE,
            setCurrentVersion assetId versionId,
            committed (updateAssetStatus assetId INDEXED no_options)])"

definition publishVersion_trace :: "database \<Rightarrow> string \<Rightarrow> string \<Rightarrow> database list" where
  "publishVersion_trace d assetId versionId =
     trace (publishVersion_statements d assetId versionId) d"

definition publishVersion :: "database \<Rightarrow> string \<Rightarrow> string \<Rightarrow> database" where
  "publishVersion d assetId versionId = run (publishVersion_statements d assetId versionId) d"

text \<open>
  \<^verbatim>\<open>handleJobError(job, error)\<close>. \<open>msg\<close> is \<^verbatim>\<open>error.message\<close>; \<open>uuid\<close>, \<open>random\<close>
  and \<open>now\<close> are the values of \<^verbatim>\<open>randomUUID()\<close>, \<^verbatim>\<open>Math.random()\<close> and
  \<^verbatim>\<open>Date.now()\<close>. The statistics counters and the log lines are left out. The result
  is the new state and the error thrown, if any: when \<^verbatim>\<open>updateAssetStatus\<close> throws,
  the queue calls after it are not reached.
\<close>

definition retry_job :: "TranscriptionJob \<Rightarrow> string \<Rightarrow> int \<Rightarrow> int \<Rightarrow> TranscriptionJob" where
  "retry_job job uuid dly now =
     job\<lparr>job_id := uuid,
         j_attempt := j_attempt job + 1,
         idempotency_key :=
           j_asset_id job @ '':'' @ j_version_id job @ '':''
             @ toString10 (int (j_attempt job + 1)),
         scheduled_at := now + dly\<rparr>"

definition handleJobError ::
    "system \<Rightarrow> TranscriptionJob \<Rightarrow> string \<Rightarrow> string \<Rightarrow> real \<Rightarrow> int
       \<Rightarrow> system \<times> error option" where
  "handleJobError st job msg uuid random now =
     (let isRetryable = isRetryableError msg;
          newAttempt = j_attempt job + 1
      in if \<not> isRetryable \<or> newAttempt \<ge> MAX_RETRY_ATTEMPTS
         then
           (let triage = determineTriageState msg;
                recommended = getRecommendedAction triage
            in case updateAssetStatus (j_asset_id job) QUARANTINED
                      \<lparr>triageState = Some (Some triage), lastError = Some (Some msg),
                       attemptOpt = Some newAttempt,
                       recommendedAction = Some (Some recommended)\<rparr> (db st) of
                 Inl e \<Rightarrow> (st, Some e)
               | Inr d' \<Rightarrow> (\<lparr>db = d', q = moveToDLQ job msg (q st)\<rparr>, None))
         else
           (let dly = calculateBackoffDelay newAttempt 1000 300000 random;
                retryJob = retry_job job uuid dly now
            in case updateAssetStatus (j_asset_id job) PENDING_RETRY
                      \<lparr>triageState = None, lastError = Some (Some msg),
                       attemptOpt = Some newAttempt, recommendedAction = None\<rparr> (db st) of
                 Inl e \<Rightarrow> (st, Some e)
               | Inr d' \<Rightarrow>
                   (\<lparr>db = d',
                     q = ackJob (job_id job) (enqueueJobWithDelay retryJob dly (q st))\<rparr>,
                    None)))"

subsection \<open>IngestService\<close>

record ObjectMetadata =
  m_etag :: string
  m_size :: int
  m_contentType :: string
  lastModified :: int

text \<open>
  \<^verbatim>\<open>handleObjectRemoved(bucket, objectKey)\<close>: three adapter calls, no transaction object.
\<close>

definition handleObjectRemoved_trace :: "database \<Rightarrow> string \<Rightarrow> string \<Rightarrow> database list" where
  "handleObjectRemoved_trace d bkt objectKey =
     (case getAssetByKey d bkt objectKey of
        None \<Rightarrow> [d]
      | Some asset \<Rightarrow>
          trace [tombstoneAsset (asset_id asset), softDeleteSegments (asset_id asset),
                 softDeleteEmbeddings (asset_id asset)] d)"

definition handleObjectRemoved :: "database \<Rightarrow> string \<Rightarrow> string \<Rightarrow> database" where
  "handleObjectRemoved d bkt objectKey =
     (case getAssetByKey d bkt objectKey of
        None \<Rightarrow> d
      | Some asset \<Rightarrow>
          softDeleteEmbeddings (asset_id asset)
            (softDeleteSegments (asset_id asset) (tombstoneAsset (asset_id asset) d)))"

text \<open>
  The part of \<^verbatim>\<open>handleObjectCreated\<close> after the asset is known: create the version
  (STAGING) and enqueue the job. When \<^verbatim>\<open>createVersion\<close> throws, the statements issued
  before it stay committed.
\<close>

definition create_version_and_job ::
    "system \<Rightarrow> MediaAsset \<Rightarrow> string \<Rightarrow> string \<Rightarrow> int \<Rightarrow> string \<Rightarrow> int
       \<Rightarrow> system \<times> error option" where
  "create_version_and_job st asset versionId etg sz jobUuid now =
     (case createVersion (db st)
             \<lparr>version_id = versionId, v_asset_id = asset_id asset, v_status = INGESTED,
              publish_state = STAGING, v_etag = etg, v_file_size = sz\<rparr> of
        Inl e \<Rightarrow> (st, Some e)
      | Inr d' \<Rightarrow>
          (\<lparr>db = d',
            q = enqueueJob
                  \<lparr>job_id = jobUuid, j_asset_id = asset_id asset, j_version_id = versionId,
                   engine_policy =
                     DEFAULT_ENGINE_POLICY\<lparr>engine := transcription_engine asset\<rparr>,
                   j_attempt = 0,
                   idempotency_key = asset_id asset @ '':'' @ versionId @ '':0'',
                   enqueued_at = now, scheduled_at = now\<rparr> (q st)\<rparr>,
           None))"

text \<open>
  \<^verbatim>\<open>handleObjectCreated(bucket, objectKey, etag?, size?)\<close>. \<open>metadata\<close> is the result
  of \<^verbatim>\<open>storage.getObjectMetadata\<close> (\<open>None\<close> when it throws), \<open>selectedEngine\<close> the
  result of \<^verbatim>\<open>selectEngine()\<close>, \<open>now\<close> the clock, and the three uuids the results of
  \<^verbatim>\<open>randomUUID()\<close> for the asset, the lineage and the job. The result is the new state
  and the error thrown, if any.
\<close>

definition handleObjectCreated ::
    "system \<Rightarrow> string \<Rightarrow> string \<Rightarrow> string option \<Rightarrow> int option \<Rightarrow> ObjectMetadata option
       \<Rightarrow> ASREngine \<Rightarrow> nat \<Rightarrow> string \<Rightarrow> string \<Rightarrow> string \<Rightarrow> system \<times> error option" where
  "handleObjectCreated st bkt objectKey etagArg sizeArg metadata selectedEngine now
       assetUuid lineageUuid jobUuid =
     (if \<not> isSupportedMediaFormat objectKey then (st, None)
      else case metadata of
        None \<Rightarrow> (st, Some (Error ''getObjectMetadata failed''))
      | Some m \<Rightarrow>
          (let etg = (if \<not> truthy etagArg \<or> sizeArg = None then m_etag m else the etagArg);
               sz = (if \<not> truthy etagArg \<or> sizeArg = None then m_size m else the sizeArg);
               versionId = computeVersionId etg sz (lastModified m) now
           in case getAssetByKey (db st) bkt objectKey of
                Some asset \<Rightarrow>
                  (case getVersion (db st) versionId of
                     Some existingVersion \<Rightarrow> (st, None)
                   | None \<Rightarrow>
                       create_version_and_job st asset versionId etg sz jobUuid (int now))
              | None \<Rightarrow>
                  (case upsertAsset (db st)
                          \<lparr>asset_id = assetUuid, lineage_id = lineageUuid, bucket = bkt,
                           object_key = objectKey, current_version_id = None,
                           status = INGESTED, triage_state = None,
                           recommended_action = None,
                           transcription_engine = selectedEngine, last_error = None,
                           attempt = 0, file_size = sz,
                           content_type = m_contentType m, etag = etg,
                           tombstone = False\<rparr> of
                     Inl e \<Rightarrow> (st, Some e)
                   | Inr (d', asset) \<Rightarrow>
                       create_version_and_job (st\<lparr>db := d'\<rparr>) asset versionId etg sz
                         jobUuid (int now))))"

subsection \<open>TriageService\<close>

text \<open>
  \<^verbatim>\<open>retryAsset(assetId)\<close> without an engine override. \<open>now\<close> is \<^verbatim>\<open>Date.now()\<close>
  and \<open>uuid\<close> the new job id. The asset is updated before the job is enqueued.
\<close>

definition retryAsset :: "system \<Rightarrow> string \<Rightarrow> nat \<Rightarrow> string \<Rightarrow> system \<times> error option" where
  "retryAsset st assetId now uuid =
     (case getAsset (db st) assetId of
        None \<Rightarrow> (st, Some (Error (''Asset '' @ assetId @ '' not found'')))
      | Some asset \<Rightarrow>
          if status asset \<noteq> QUARANTINED
          then (st, Some (Error (''Asset '' @ assetId @ '' is not quarantined (status: ''
                                  @ AssetStatus_value (status asset) @ '')'')))
          else if \<not> truthy (current_version_id asset)
          then (st, Some (Error (''Asset '' @ assetId @ '' has no version to retry'')))
          else
            (let versionId = the (current_version_id asset);
                 job = \<lparr>job_id = uuid, j_asset_id = assetId, j_version_id = versionId,
                        engine_policy =
                          DEFAULT_ENGINE_POLICY\<lparr>engine := transcription_engine asset\<rparr>,
                        j_attempt = 0,
                        idempotency_key =
                          assetId @ '':'' @ versionId @ '':retry:'' @ toString10 (int now),
                        enqueued_at = int now, scheduled_at = int now\<rparr>
             in case updateAssetStatus assetId PENDING_RETRY
                       \<lparr>triageState = Some None, lastError = Some None,
                        attemptOpt = Some 0, recommendedAction = None\<rparr> (db st) of
                  Inl e \<Rightarrow> (st, Some e)
                | Inr d' \<Rightarrow> (\<lparr>db = d', q = enqueueJob job (q st)\<rparr>, None)))"

subsection \<open>Query layer, PostgreSQL: the SQL functions search_keyword and search_semantic\<close>

record SearchQuery =
  query :: string
  q_bucket :: "string option"
  q_speaker :: "string option"
  limit :: nat
  offset :: nat

text \<open>\<^verbatim>\<open>query.bucket || null\<close>: an absent or empty filter is passed as \<^verbatim>\<open>NULL\<close>.\<close>

definition or_null :: "string option \<Rightarrow> string option" where
  "or_null v = (if truthy v then v else None)"

text \<open>\<^verbatim>\<open>(f IS NULL OR col = f)\<close> in a \<^verbatim>\<open>WHERE\<close> clause; a \<^verbatim>\<open>NULL\<close> column fails it.\<close>

definition filter_ok :: "string option \<Rightarrow> string option \<Rightarrow> bool" where
  "filter_ok f col = (case f of None \<Rightarrow> True | Some x \<Rightarrow> col = Some x)"

text \<open>
  A row of the join \<^verbatim>\<open>transcript_segments s JOIN media_assets a ON s.asset_id = a.asset_id\<close>
  that passes the \<^verbatim>\<open>WHERE\<close> clause of \<^verbatim>\<open>search_keyword\<close>. The full-text match
  \<^verbatim>\<open>to_tsvector('english', s.text) @@ plainto_tsquery('english', query_text)\<close> and
  \<^verbatim>\<open>ts_rank\<close> belong to PostgreSQL and are the parameters \<open>matches\<close> and \<open>rank\<close>.
\<close>

definition keyword_where ::
    "(string \<Rightarrow> string \<Rightarrow> bool) \<Rightarrow> string \<Rightarrow> string option \<Rightarrow> string option
       \<Rightarrow> TranscriptSegment \<times> MediaAsset \<Rightarrow> bool" where
  "keyword_where matches query_text bucket_filter speaker_filter row =
     (case row of (s, a) \<Rightarrow>
        s_visibility s = ACTIVE
        \<and> current_version_id a = Some (s_version_id s)
        \<and> tombstone a = False
        \<and> matches (s_text s) query_text
        \<and> filter_ok bucket_filter (Some (bucket a))
        \<and> filter_ok speaker_filter (speaker s))"

definition segments_join_assets :: "database \<Rightarrow> (TranscriptSegment \<times> MediaAsset) list" where
  "segments_join_assets d =
     concat (map (\<lambda>s. map (\<lambda>a. (s, a))
                         (filter (\<lambda>a. s_asset_id s = asset_id a) (media_assets d)))
               (transcript_segments d))"

text \<open>\<^verbatim>\<open>ORDER BY score DESC LIMIT result_limit OFFSET result_offset\<close>.\<close>

definition search_keyword_rows ::
    "(string \<Rightarrow> string \<Rightarrow> bool) \<Rightarrow> (string \<Rightarrow> string \<Rightarrow> real) \<Rightarrow> database \<Rightarrow> string
       \<Rightarrow> nat \<Rightarrow> nat \<Rightarrow> string option \<Rightarrow> string option
       \<Rightarrow> (TranscriptSegment \<times> MediaAsset) list" where
  "search_keyword_rows matches rank d query_text result_limit result_offset
       bucket_filter speaker_filter =
     take result_limit (drop result_offset
       (sort_key (\<lambda>(s, a). - rank (s_text s) query_text)
          (filter (keyword_where matches query_text bucket_filter speaker_filter)
             (segments_join_assets d))))"

text \<open>
  The join of \<^verbatim>\<open>search_semantic\<close>:
  \<^verbatim>\<open>transcript_embeddings e JOIN transcript_segments s ON e.asset_id = s.asset_id AND
  e.version_id = s.version_id AND e.segment_id = s.segment_id JOIN media_assets a ON
  e.asset_id = a.asset_id\<close>. The cosine distance \<^verbatim>\<open><=>\<close> of pgvector is the
  parameter \<open>distance\<close>.
\<close>

definition embeddings_join ::
    "database \<Rightarrow> (TranscriptEmbedding \<times> TranscriptSegment \<times> MediaAsset) list" where
  "embeddings_join d =
     concat (map (\<lambda>e.
               concat (map (\<lambda>s. map (\<lambda>a. (e, s, a))
                                   (filter (\<lambda>a. e_asset_id e = asset_id a) (media_assets d)))
                         (filter (\<lambda>s. e_asset_id e = s_asset_id s
                                       \<and> e_version_id e = s_version_id s
                                       \<and> e_segment_id e = segment_id s)
                            (transcript_segments d))))
               (transcript_embeddings d))"

definition semantic_where ::
    "string option \<Rightarrow> string option \<Rightarrow> TranscriptEmbedding \<times> TranscriptSegment \<times> MediaAsset
       \<Rightarrow> bool" where
  "semantic_where bucket_filter speaker_filter row =
     (case row of (e, s, a) \<Rightarrow>
        e_visibility e = ACTIVE
        \<and> s_visibility s = ACTIVE
        \<and> current_version_id a = Some (e_version_id e)
        \<and> tombstone a = False
        \<and> filter_ok bucket_filter (Some (bucket a))
        \<and> filter_ok speaker_filter (speaker s))"

definition search_semantic_rows ::
    "(real list \<Rightarrow> real list \<Rightarrow> real) \<Rightarrow> database \<Rightarrow> real list \<Rightarrow> nat \<Rightarrow> nat
       \<Rightarrow> string option \<Rightarrow> string option
       \<Rightarrow> (TranscriptEmbedding \<times> TranscriptSegment \<times> MediaAsset) list" where
  "search_semantic_rows distance d query_embedding result_limit result_offset
       bucket_filter speaker_filter =
     take result_limit (drop result_offset
       (sort_key (\<lambda>(e, s, a). distance (embedding e) query_embedding)
          (filter (semantic_where bucket_filter speaker_filter) (embeddings_join d))))"

text \<open>The hit that \<^verbatim>\<open>mapSearchHit\<close> builds from a result row.\<close>

record SearchHit =
  h_asset_id :: string
  h_start_ms :: int
  h_end_ms :: int
  snippet :: string
  score :: real
  h_speaker :: "string option"
  h_bucket :: string
  h_object_key :: string

definition keyword_hit ::
    "(string \<Rightarrow> string \<Rightarrow> real) \<Rightarrow> (string \<Rightarrow> string \<Rightarrow> string) \<Rightarrow> string
       \<Rightarrow> TranscriptSegment \<times> MediaAsset \<Rightarrow> SearchHit" where
  "keyword_hit rank headline query_text row =
     (case row of (s, a) \<Rightarrow>
        \<lparr>h_asset_id = s_asset_id s, h_start_ms = start_ms s, h_end_ms = end_ms s,
         snippet = headline (s_text s) query_text, score = rank (s_text s) query_text,
         h_speaker = speaker s, h_bucket = bucket a, h_object_key = object_key a\<rparr>)"

definition semantic_hit ::
    "(real list \<Rightarrow> real list \<Rightarrow> real) \<Rightarrow> real list
       \<Rightarrow> TranscriptEmbedding \<times> TranscriptSegment \<times> MediaAsset \<Rightarrow> SearchHit" where
  "semantic_hit distance query_embedding row =
     (case row of (e, s, a) \<Rightarrow>
        \<lparr>h_asset_id = e_asset_id e, h_start_ms = start_ms s, h_end_ms = end_ms s,
         snippet = s_text s, score = 1 - distance (embedding e) query_embedding,
         h_speaker = speaker s, h_bucket = bucket a, h_object_key = object_key a\<rparr>)"

text \<open>\<^verbatim>\<open>PostgresDatabaseAdapter.searchKeyword\<close> and \<^verbatim>\<open>searchSemantic\<close>.\<close>

definition searchKeyword ::
    "(string \<Rightarrow> string \<Rightarrow> bool) \<Rightarrow> (string \<Rightarrow> string \<Rightarrow> real) \<Rightarrow> (string \<Rightarrow> string \<Rightarrow> string)
       \<Rightarrow> database \<Rightarrow> SearchQuery \<Rightarrow> SearchHit list" where
  "searchKeyword matches rank headline d qr =
     map (keyword_hit rank headline (query qr))
       (search_keyword_rows matches rank d (query qr) (limit qr) (offset qr)
          (or_null (q_bucket qr)) (or_null (q_speaker qr)))"

definition searchSemantic ::
    "(real list \<Rightarrow> real list \<Rightarrow> real) \<Rightarrow> database \<Rightarrow> SearchQuery \<Rightarrow> real list
       \<Rightarrow> SearchHit list" where
  "searchSemantic distance d qr queryEmbedding =
     map (semantic_hit distance queryEmbedding)
       (search_semantic_rows distance d queryEmbedding (limit qr) (offset qr)
          (or_null (q_bucket qr)) (or_null (q_speaker qr)))"

text \<open>
  A JavaScript \<^verbatim>\<open>Map\<close> with string keys keeps its keys in insertion order: an
  association list. \<^verbatim>\<open>set\<close> on a key the map holds replaces the value in place.
\<close>

fun map_get :: "(string \<times> 'a) list \<Rightarrow> string \<Rightarrow> 'a option" where
  "map_get [] k = None"
| "map_get ((k', v) # m) k = (if k' = k then Some v else map_get m k)"

fun map_set :: "(string \<times> 'a) list \<Rightarrow> string \<Rightarrow> 'a \<Rightarrow> (string \<times> 'a) list" where
  "map_set [] k v = [(k, v)]"
| "map_set ((k', v') # m) k v = (if k' = k then (k, v) # m else (k', v') # map_set m k v)"

text \<open>The keys of a \<^verbatim>\<open>Map\<close> that was empty before \<^verbatim>\<open>set\<close> was called with these keys in turn.\<close>

definition insertion_order :: "string list \<Rightarrow> string list" where
  "insertion_order ks = foldl (\<lambda>acc k. if k \<in> set acc then acc else acc @ [k]) [] ks"

text \<open>
  \<^verbatim>\<open>PostgresDatabaseAdapter.searchHybrid\<close>. Both searches run with twice the limit (and
  the offset of the query). The results are merged in \<^verbatim>\<open>scoreMap\<close> under the key
  \<^verbatim>\<open>`${hit.asset_id}:${hit.start_ms}`\<close>: a keyword hit sets the entry of its key to
  itself with \<^verbatim>\<open>hit.score * keywordWeight\<close>, a semantic hit adds
  \<^verbatim>\<open>hit.score * semanticWeight\<close> to the entry of its key when there is one and sets
  the entry otherwise. Then
  \<^verbatim>\<open>sort((a, b) => b.score - a.score).slice(query.offset, query.offset + query.limit)\<close>,
  a stable sort, and each hit gets the merged score.
\<close>

definition hit_key :: "SearchHit \<Rightarrow> string" where
  "hit_key hit = h_asset_id hit @ '':'' @ toString10 (h_start_ms hit)"

definition pg_add_keyword_hit ::
    "real \<Rightarrow> (string \<times> SearchHit \<times> real) list \<Rightarrow> SearchHit
       \<Rightarrow> (string \<times> SearchHit \<times> real) list" where
  "pg_add_keyword_hit keywordWeight scoreMap hit =
     map_set scoreMap (hit_key hit) (hit, score hit * keywordWeight)"

definition pg_add_semantic_hit ::
    "real \<Rightarrow> (string \<times> SearchHit \<times> real) list \<Rightarrow> SearchHit
       \<Rightarrow> (string \<times> SearchHit \<times> real) list" where
  "pg_add_semantic_hit semanticWeight scoreMap hit =
     (case map_get scoreMap (hit_key hit) of
        Some (existingHit, existingScore) \<Rightarrow>
          map_set scoreMap (hit_key hit)
            (existingHit, existingScore + score hit * semanticWeight)
      | None \<Rightarrow> map_set scoreMap (hit_key hit) (hit, score hit * semanticWeight))"

definition pg_merge_hits ::
    "SearchHit list \<Rightarrow> SearchHit list \<Rightarrow> real \<Rightarrow> real \<Rightarrow> (string \<times> SearchHit \<times> real) list" where
  "pg_merge_hits keywordResults semanticResults keywordWeight semanticWeight =
     foldl (pg_add_semantic_hit semanticWeight)
       (foldl (pg_add_keyword_hit keywordWeight) [] keywordResults) semanticResults"

definition pg_rank_hits :: "nat \<Rightarrow> nat \<Rightarrow> (string \<times> SearchHit \<times> real) list \<Rightarrow> SearchHit list" where
  "pg_rank_hits off n scoreMap =
     map (\<lambda>(hit, sc). hit\<lparr>score := sc\<rparr>)
       (take n (drop off (sort_key (\<lambda>(hit, sc). - sc) (map snd scoreMap))))"

definition searchHybrid ::
    "(string \<Rightarrow> string \<Rightarrow> bool) \<Rightarrow> (string \<Rightarrow> string \<Rightarrow> real) \<Rightarrow> (string \<Rightarrow> string \<Rightarrow> string)
       \<Rightarrow> (real list \<Rightarrow> real list \<Rightarrow> real) \<Rightarrow> database \<Rightarrow> SearchQuery \<Rightarrow> real list
       \<Rightarrow> real \<Rightarrow> real \<Rightarrow> SearchHit list" where
  "searchHybrid matches rank headline distance d qr queryEmbedding keywordWeight
       semanticWeight =
     pg_rank_hits (offset qr) (limit qr)
       (pg_merge_hits
          (searchKeyword matches rank headline d (qr\<lparr>limit := limit qr * 2\<rparr>))
          (searchSemantic distance d (qr\<lparr>limit := limit qr * 2\<rparr>) queryEmbedding)
          keywordWeight semanticWeight)"

subsection \<open>Query layer, VAST DataBase adapter\<close>

text \<open>
  The class \<^verbatim>\<open>VASTDatabaseAdapter\<close> declares the fields \<^verbatim>\<open>config\<close>, \<^verbatim>\<open>rpc\<close> and
  \<^verbatim>\<open>connected\<close>, and its constructor and \<^verbatim>\<open>initialize\<close> assign these only. The
  search methods and \<^verbatim>\<open>getSegmentById\<close> read \<^verbatim>\<open>this.client\<close>, which no statement of
  the class assigns: its value is \<^verbatim>\<open>undefined\<close>, and the call of a method on it throws
  a \<^verbatim>\<open>TypeError\<close> inside the \<^verbatim>\<open>try\<close> block of the method.

  The value of \<^verbatim>\<open>this.client\<close> is the first argument of the methods below: \<open>None\<close> is
  \<^verbatim>\<open>undefined\<close>, and \<open>Some d\<close> is an object whose \<^verbatim>\<open>executeQuery\<close> and
  \<^verbatim>\<open>selectById\<close> read the tables \<open>d\<close>. In the adapter as the class builds it the
  value is \<open>VASTDatabaseAdapter_client\<close>.
\<close>

definition VASTDatabaseAdapter_client :: "database option" where
  "VASTDatabaseAdapter_client = None"

text \<open>The message of the \<^verbatim>\<open>TypeError\<close> for \<^verbatim>\<open>undefined.prop\<close> (Node.js).\<close>

definition TypeError_undefined :: "string \<Rightarrow> string" where
  "TypeError_undefined prop =
     ''Cannot read properties of undefined (reading '' @ [CHR 0x27] @ prop @ [CHR 0x27] @ '')''"

record VASTSearchQuery =
  vq_text :: string
  vq_limit :: nat

record VASTSearchHit =
  vh_segment_id :: string
  vh_asset_id :: string
  vh_version_id :: string
  vh_text :: string
  vh_start_ms :: int
  vh_end_ms :: int
  vh_speaker :: string
  vh_confidence :: real
  vh_score :: real
  match_type :: MatchType

text \<open>\<^verbatim>\<open>query.limit || 100\<close>.\<close>

definition limit_or_100 :: "nat \<Rightarrow> nat" where
  "limit_or_100 n = (if n = 0 then 100 else n)"

text \<open>
  \<^verbatim>\<open>SELECT * FROM transcript_segments WHERE visibility = 'ACTIVE' AND text LIKE '${query.text}'
  ORDER BY created_at DESC LIMIT ${query.limit || 100}\<close>. The \<^verbatim>\<open>LIKE\<close> operator of the
  engine is the parameter \<open>like\<close>.
\<close>

definition vast_keyword_rows ::
    "(string \<Rightarrow> string \<Rightarrow> bool) \<Rightarrow> database \<Rightarrow> VASTSearchQuery \<Rightarrow> TranscriptSegment list" where
  "vast_keyword_rows like d qr =
     take (limit_or_100 (vq_limit qr))
       (sort_key (\<lambda>s. - s_created_at s)
          (filter (\<lambda>s. s_visibility s = ACTIVE \<and> like (s_text s) (vq_text qr))
             (transcript_segments d)))"

definition vast_keyword_hit :: "TranscriptSegment \<Rightarrow> VASTSearchHit" where
  "vast_keyword_hit row =
     \<lparr>vh_segment_id = segment_id row, vh_asset_id = s_asset_id row,
      vh_version_id = s_version_id row, vh_text = s_text row,
      vh_start_ms = start_ms row, vh_end_ms = end_ms row,
      vh_speaker = (case speaker row of None \<Rightarrow> [] | Some sp \<Rightarrow> sp),
      vh_confidence = confidence row, vh_score = 1, match_type = keyword\<rparr>"

text \<open>
  \<^verbatim>\<open>searchKeyword\<close>: \<^verbatim>\<open>try { ... await this.client.executeQuery(sql) ... } catch (error)
  { throw new Error(`Keyword search failed: ${error.message}`) }\<close>.
\<close>

definition vast_searchKeyword ::
    "database option \<Rightarrow> (string \<Rightarrow> string \<Rightarrow> bool) \<Rightarrow> VASTSearchQuery
       \<Rightarrow> error + VASTSearchHit list" where
  "vast_searchKeyword client like qr =
     (case client of
        None \<Rightarrow> Inl (Error (''Keyword search failed: '' @ TypeError_undefined ''executeQuery''))
      | Some d \<Rightarrow> Inr (map vast_keyword_hit (vast_keyword_rows like d qr)))"

text \<open>
  \<^verbatim>\<open>getSegmentById\<close>: \<^verbatim>\<open>try { ... await this.client.selectById('transcript_segments',
  'segment_id', segmentId) ... } catch { return null }\<close>.
\<close>

definition getSegmentById :: "database option \<Rightarrow> string \<Rightarrow> TranscriptSegment option" where
  "getSegmentById client segmentId =
     (case client of
        None \<Rightarrow> None
      | Some d \<Rightarrow> find (\<lambda>s. segment_id s = segmentId) (transcript_segments d))"

definition calculateCosineSimilarity :: "real list \<Rightarrow> real list \<Rightarrow> real" where
  "calculateCosineSimilarity vec1 vec2 =
     (if length vec1 \<noteq> length vec2 then 0
      else
        (let dotProduct = (\<Sum>(x, y) \<leftarrow> zip vec1 vec2. x * y);
             mag1 = (\<Sum>x \<leftarrow> vec1. x * x);
             mag2 = (\<Sum>y \<leftarrow> vec2. y * y)
         in if mag1 = 0 \<or> mag2 = 0 then 0 else dotProduct / (sqrt mag1 * sqrt mag2)))"

text \<open>
  \<^verbatim>\<open>SELECT * FROM transcript_embeddings WHERE visibility = 'ACTIVE'
  ORDER BY array_cosine_distance(embedding, [..]) LIMIT ${query.limit || 100}\<close>, then one
  \<^verbatim>\<open>getSegmentById\<close> per row; a row without a segment is skipped.
\<close>

definition vast_semantic_rows ::
    "(real list \<Rightarrow> real list \<Rightarrow> real) \<Rightarrow> database \<Rightarrow> VASTSearchQuery \<Rightarrow> real list
       \<Rightarrow> TranscriptEmbedding list" where
  "vast_semantic_rows distance d qr queryEmbedding =
     take (limit_or_100 (vq_limit qr))
       (sort_key (\<lambda>e. distance (embedding e) queryEmbedding)
          (filter (\<lambda>e. e_visibility e = ACTIVE) (transcript_embeddings d)))"

definition vast_semantic_hit ::
    "database option \<Rightarrow> real list \<Rightarrow> TranscriptEmbedding \<Rightarrow> VASTSearchHit list" where
  "vast_semantic_hit client queryEmbedding row =
     (case getSegmentById client (e_segment_id row) of
        None \<Rightarrow> []
      | Some segmentData \<Rightarrow>
          [\<lparr>vh_segment_id = e_segment_id row, vh_asset_id = e_asset_id row,
            vh_version_id = e_version_id row, vh_text = s_text segmentData,
            vh_start_ms = start_ms segmentData, vh_end_ms = end_ms segmentData,
            vh_speaker = (case speaker segmentData of None \<Rightarrow> [] | Some sp \<Rightarrow> sp),
            vh_confidence = confidence segmentData,
            vh_score = calculateCosineSimilarity queryEmbedding (embedding row),
            match_type = semantic\<rparr>])"

text \<open>
  \<^verbatim>\<open>searchSemantic\<close>: the test of the query embedding comes first, then
  \<^verbatim>\<open>this.client.executeQuery(sql)\<close>; both are inside the \<^verbatim>\<open>try\<close> block.
\<close>

definition vast_searchSemantic ::
    "database option \<Rightarrow> (real list \<Rightarrow> real list \<Rightarrow> real) \<Rightarrow> VASTSearchQuery \<Rightarrow> real list
       \<Rightarrow> error + VASTSearchHit list" where
  "vast_searchSemantic client distance qr queryEmbedding =
     (if queryEmbedding = []
      then Inl (Error ''Semantic search failed: Query embedding required for semantic search'')
      else case client of
        None \<Rightarrow> Inl (Error (''Semantic search failed: '' @ TypeError_undefined ''executeQuery''))
      | Some d \<Rightarrow>
          Inr (concat (map (vast_semantic_hit client queryEmbedding)
                        (vast_semantic_rows distance d qr queryEmbedding))))"

text \<open>The two merge loops of the VAST \<^verbatim>\<open>searchHybrid\<close> over \<^verbatim>\<open>hitMap\<close>.\<close>

definition add_keyword_hit ::
    "real \<Rightarrow> (string \<times> VASTSearchHit) list \<Rightarrow> VASTSearchHit \<Rightarrow> (string \<times> VASTSearchHit) list" where
  "add_keyword_hit keywordWeight hitMap hit =
     (case map_get hitMap (vh_segment_id hit) of
        Some existingHit \<Rightarrow>
          map_set hitMap (vh_segment_id hit)
            (existingHit\<lparr>vh_score := vh_score existingHit + keywordWeight\<rparr>)
      | None \<Rightarrow> map_set hitMap (vh_segment_id hit) (hit\<lparr>vh_score := keywordWeight\<rparr>))"

definition add_semantic_hit ::
    "real \<Rightarrow> (string \<times> VASTSearchHit) list \<Rightarrow> VASTSearchHit \<Rightarrow> (string \<times> VASTSearchHit) list" where
  "add_semantic_hit semanticWeight hitMap hit =
     (case map_get hitMap (vh_segment_id hit) of
        Some existingHit \<Rightarrow>
          map_set hitMap (vh_segment_id hit)
            (existingHit\<lparr>vh_score := vh_score existingHit + vh_score hit * semanticWeight,
                         match_type := hybrid\<rparr>)
      | None \<Rightarrow>
          map_set hitMap (vh_segment_id hit)
            (hit\<lparr>vh_score := vh_score hit * semanticWeight, match_type := hybrid\<rparr>))"

definition merge_hits ::
    "VASTSearchHit list \<Rightarrow> VASTSearchHit list \<Rightarrow> real \<Rightarrow> real
       \<Rightarrow> (string \<times> VASTSearchHit) list" where
  "merge_hits keywordHits semanticHits keywordWeight semanticWeight =
     foldl (add_semantic_hit semanticWeight)
       (foldl (add_keyword_hit keywordWeight) [] keywordHits) semanticHits"

text \<open>
  \<^verbatim>\<open>Array.from(hitMap.values()).sort((a, b) => (b.score || 0) - (a.score || 0))\<close>, a
  stable sort, then \<^verbatim>\<open>slice(0, query.limit || 100)\<close>.
\<close>

definition rank_hits :: "nat \<Rightarrow> (string \<times> VASTSearchHit) list \<Rightarrow> VASTSearchHit list" where
  "rank_hits n hitMap = take (limit_or_100 n) (sort_key (\<lambda>h. - vh_score h) (map snd hitMap))"

text \<open>
  \<^verbatim>\<open>searchHybrid\<close>: \<^verbatim>\<open>await Promise.all([this.searchKeyword(query),
  this.searchSemantic(query, queryEmbedding)])\<close> inside a \<^verbatim>\<open>try\<close> block whose
  \<^verbatim>\<open>catch\<close> throws \<^verbatim>\<open>`Hybrid search failed: ${error.message}`\<close>. Both calls are started
  before the first suspension; when both reject, \<^verbatim>\<open>Promise.all\<close> rejects with the error
  of the first.
\<close>

definition vast_searchHybrid ::
    "database option \<Rightarrow> (string \<Rightarrow> string \<Rightarrow> bool) \<Rightarrow> (real list \<Rightarrow> real list \<Rightarrow> real)
       \<Rightarrow> VASTSearchQuery \<Rightarrow> real list \<Rightarrow> real \<Rightarrow> real \<Rightarrow> error + VASTSearchHit list" where
  "vast_searchHybrid client like distance qr queryEmbedding keywordWeight semanticWeight =
     (case vast_searchKeyword client like qr of
        Inl (Error m) \<Rightarrow> Inl (Error (''Hybrid search failed: '' @ m))
      | Inr keywordHits \<Rightarrow>
          (case vast_searchSemantic client distance qr queryEmbedding of
             Inl (Error m) \<Rightarrow> Inl (Error (''Hybrid search failed: '' @ m))
           | Inr semanticHits \<Rightarrow>
               Inr (rank_hits (vq_limit qr)
                      (merge_hits keywordHits semanticHits keywordWeight semanticWeight))))"

subsection \<open>The triage-state mapping of the specification\<close>

text \<open>
  The table that section 4.4 of the specification prints under ``Triage-state mapping'',
  written down from the specification and not from the code: the error kinds that end in
  quarantine, each with its triage state and its recommended action. It is compared below
  with what \<^verbatim>\<open>determineTriageState\<close> and \<^verbatim>\<open>getRecommendedAction\<close> store. The dash of
  the last row is the character U+2014, here in its three UTF-8 code units.
\<close>

datatype ErrorKind = MEDIA_FORMAT | ENGINE_CONFIG | PERMANENT_DOWNSTREAM | TRANSIENT_exhausted

definition em_dash :: string where
  "em_dash = [CHR 0xE2, CHR 0x80, CHR 0x94]"

fun spec_triage_mapping :: "ErrorKind \<Rightarrow> TriageState \<times> string" where
  "spec_triage_mapping MEDIA_FORMAT =
     (NEEDS_MEDIA_FIX, ''Re-encode with supported codec or repair corruption'')"
| "spec_triage_mapping ENGINE_CONFIG =
     (NEEDS_ENGINE_TUNING, ''Review engine configuration or choose alternative engine'')"
| "spec_triage_mapping PERMANENT_DOWNSTREAM =
     (QUARANTINED_triage, ''Manual investigation required'')"
| "spec_triage_mapping TRANSIENT_exhausted =
     (QUARANTINED_triage, ''Manual investigation '' @ em_dash @ '' retries exhausted'')"

section \<open>Example data\<close>

text \<open>Concrete inputs at which the theorems below are evaluated.\<close>

definition example_metadata :: ObjectMetadata where
  "example_metadata =
     \<lparr>m_etag = ''E1'', m_size = 1024, m_contentType = ''audio/wav'', lastModified = 0\<rparr>"

definition empty_system :: system where
  "empty_system =
     \<lparr>db = \<lparr>media_assets = [], asset_versions = [], transcript_segments = [],
             transcript_embeddings = []\<rparr>,
      q = \<lparr>queue = [], dlqQueue = []\<rparr>\<rparr>"

text \<open>
  The object-created event of the happy path: bucket \<open>media\<close>, key \<open>hello.wav\<close>,
  etag \<open>E1\<close>, 1024 bytes, modification time 0.
\<close>

definition ingest_E1 :: "system \<Rightarrow> nat \<Rightarrow> string \<Rightarrow> string \<Rightarrow> string \<Rightarrow> system" where
  "ingest_E1 st now assetUuid lineageUuid jobUuid =
     fst (handleObjectCreated st ''media'' ''hello.wav'' (Some ''E1'') (Some 1024)
            (Some example_metadata) STUB now assetUuid lineageUuid jobUuid)"

text \<open>
  One asset \<open>a1\<close> whose current version is \<open>v1\<close>; \<open>v1\<close> is published (segment and
  embedding ACTIVE) and \<open>v2\<close> has been transcribed and waits at STAGING.
\<close>

definition example_asset :: MediaAsset where
  "example_asset =
     \<lparr>asset_id = ''a1'', lineage_id = ''l1'', bucket = ''media'', object_key = ''hello.wav'',
      current_version_id = Some ''v1'', status = TRANSCRIBING, triage_state = None,
      recommended_action = None, transcription_engine = STUB, last_error = None,
      attempt = 0, file_size = 2048, content_type = ''audio/wav'', etag = ''E2'',
      tombstone = False\<rparr>"

definition example_segment :: "string \<Rightarrow> string \<Rightarrow> string \<Rightarrow> Visibility \<Rightarrow> TranscriptSegment" where
  "example_segment segId versionId txt vis =
     \<lparr>segment_id = segId, s_asset_id = ''a1'', s_version_id = versionId, start_ms = 0,
      end_ms = 1000, s_text = txt, speaker = None, confidence = 1, s_visibility = vis,
      s_created_at = 0\<rparr>"

definition example_embedding :: "string \<Rightarrow> string \<Rightarrow> Visibility \<Rightarrow> TranscriptEmbedding" where
  "example_embedding segId versionId vis =
     \<lparr>embedding_id = segId @ ''_emb'', e_asset_id = ''a1'', e_version_id = versionId,
      e_segment_id = segId, embedding = [1], e_visibility = vis\<rparr>"

definition example_db :: database where
  "example_db =
     \<lparr>media_assets = [example_asset],
      asset_versions =
        [\<lparr>version_id = ''v1'', v_asset_id = ''a1'', v_status = TRANSCRIBED,
          publish_state = STAGING, v_etag = ''E1'', v_file_size = 1024\<rparr>,
         \<lparr>version_id = ''v2'', v_asset_id = ''a1'', v_status = TRANSCRIBED,
          publish_state = STAGING, v_etag = ''E2'', v_file_size = 2048\<rparr>],
      transcript_segments =
        [example_segment ''v1_seg_0'' ''v1'' ''hello world'' ACTIVE,
         example_segment ''v2_seg_0'' ''v2'' ''goodbye'' STAGING],
      transcript_embeddings =
        [example_embedding ''v1_seg_0'' ''v1'' ACTIVE,
         example_embedding ''v2_seg_0'' ''v2'' STAGING]\<rparr>"

text \<open>The job for version \<open>v2\<close> of the asset, at a given attempt, and a system holding it.\<close>

definition example_job :: "nat \<Rightarrow> TranscriptionJob" where
  "example_job n =
     \<lparr>job_id = ''j1'', j_asset_id = ''a1'', j_version_id = ''v2'',
      engine_policy = DEFAULT_ENGINE_POLICY, j_attempt = n,
      idempotency_key = ''a1:v2:'' @ toString10 (int n), enqueued_at = 0, scheduled_at = 0\<rparr>"

definition example_system :: "nat \<Rightarrow> system" where
  "example_system n =
     \<lparr>db = example_db,
      q = \<lparr>queue = [(''j1'', \<lparr>job_data = example_job n, delay = 0\<rparr>)], dlqQueue = []\<rparr>\<rparr>"

definition empty_queues :: queues where
  "empty_queues = \<lparr>queue = [], dlqQueue = []\<rparr>"

text \<open>A second delivery of the same work: same idempotency key, another job id.\<close>

definition duplicate_job :: TranscriptionJob where
  "duplicate_job = (example_job 0)\<lparr>job_id := ''j9''\<rparr>"

text \<open>
  The example asset after version \<open>v1\<close> was published and a later job was quarantined,
  and the same asset when no version was ever published.
\<close>

definition quarantined_asset :: "string option \<Rightarrow> MediaAsset" where
  "quarantined_asset current =
     example_asset\<lparr>current_version_id := current, status := QUARANTINED,
                   triage_state := Some NEEDS_MEDIA_FIX,
                   recommended_action :=
                     Some ''Re-encode media file with supported codec or fix corruption'',
                   last_error := Some ''ASR failed: unsupported codec'', attempt := 1\<rparr>"

definition quarantined_system :: "string option \<Rightarrow> system" where
  "quarantined_system current =
     \<lparr>db = example_db\<lparr>media_assets := [quarantined_asset current]\<rparr>, q = empty_queues\<rparr>"

text \<open>The object-created event of \<open>ingest_E1\<close> for an arbitrary key.\<close>

definition ingest_object :: "system \<Rightarrow> string \<Rightarrow> nat \<Rightarrow> string \<Rightarrow> string \<Rightarrow> string \<Rightarrow> system \<times> error option" where
  "ingest_object st objectKey now assetUuid lineageUuid jobUuid =
     handleObjectCreated st ''media'' objectKey (Some ''E1'') (Some 1024)
       (Some example_metadata) STUB now assetUuid lineageUuid jobUuid"

text \<open>
  Stand-ins for the operators of PostgreSQL in the examples: the full-text match is
  containment of the query text, \<^verbatim>\<open>ts_rank\<close> is 1/10 for every text and
  \<^verbatim>\<open>ts_headline\<close> returns the text; the cosine distance of pgvector is one minus
  the cosine similarity.
\<close>

definition cosine_distance :: "real list \<Rightarrow> real list \<Rightarrow> real" where
  "cosine_distance v w = 1 - calculateCosineSimilarity v w"

definition matches_plain :: "string \<Rightarrow> string \<Rightarrow> bool" where
  "matches_plain txt query_text = str_includes txt query_text"

definition rank_tenth :: "string \<Rightarrow> string \<Rightarrow> real" where
  "rank_tenth txt query_text = 1 / 10"

definition headline_plain :: "string \<Rightarrow> string \<Rightarrow> string" where
  "headline_plain txt query_text = txt"

definition example_search :: "string \<Rightarrow> SearchQuery" where
  "example_search txt =
     \<lparr>query = txt, q_bucket = None, q_speaker = None, limit = 10, offset = 0\<rparr>"

text \<open>The hit of the search functions for the ACTIVE segment of the example database.\<close>

definition example_search_hit :: "real \<Rightarrow> SearchHit" where
  "example_search_hit sc =
     \<lparr>h_asset_id = ''a1'', h_start_ms = 0, h_end_ms = 1000, snippet = ''hello world'',
      score = sc, h_speaker = None, h_bucket = ''media'', h_object_key = ''hello.wav''\<rparr>"

text \<open>
  Two ACTIVE segments of the current version \<open>v1\<close> of the example asset: the first has
  the text \<open>hello\<close> and no embedding, the second starts at 1000 ms, has the text
  \<open>other\<close> and the embedding \<open>[1]\<close>. The hits of the two segments follow.
\<close>

definition tie_db :: database where
  "tie_db =
     example_db\<lparr>transcript_segments :=
                  [example_segment ''sA'' ''v1'' ''hello'' ACTIVE,
                   (example_segment ''sB'' ''v1'' ''other'' ACTIVE)
                     \<lparr>start_ms := 1000, end_ms := 2000\<rparr>],
                transcript_embeddings := [example_embedding ''sB'' ''v1'' ACTIVE]\<rparr>"

text \<open>
  The same two segments when both start at 0 ms: two segment ids, one key
  \<open>a1:0\<close>.
\<close>

definition overlap_db :: database where
  "overlap_db =
     example_db\<lparr>transcript_segments :=
                  [example_segment ''sA'' ''v1'' ''hello'' ACTIVE,
                   example_segment ''sB'' ''v1'' ''other'' ACTIVE],
                transcript_embeddings := [example_embedding ''sB'' ''v1'' ACTIVE]\<rparr>"

definition tie_hit :: "string \<Rightarrow> int \<Rightarrow> real \<Rightarrow> SearchHit" where
  "tie_hit txt start sc =
     \<lparr>h_asset_id = ''a1'', h_start_ms = start, h_end_ms = start + 1000, snippet = txt,
      score = sc, h_speaker = None, h_bucket = ''media'', h_object_key = ''hello.wav''\<rparr>"

text \<open>
  The example job fails with the given error message at the given attempt; the new job
  id is \<open>j2\<close>, \<^verbatim>\<open>Math.random()\<close> returns 1/2 and the clock reads 0.
\<close>

definition fail_example_job :: "nat \<Rightarrow> string \<Rightarrow> system \<times> error option" where
  "fail_example_job n msg =
     handleJobError (example_system n) (example_job n) msg ''j2'' (1 / 2) 0"

text \<open>
  The operator retries the quarantined example asset; the clock reads 5000 and the new
  job id is \<open>j3\<close>.
\<close>

definition retry_quarantined :: "string option \<Rightarrow> system \<times> error option" where
  "retry_quarantined current = retryAsset (quarantined_system current) ''a1'' 5000 ''j3''"

section \<open>Properties\<close>

subsection \<open>Version ids\<close>

lemma hash_E1: "hash_loop 0 (version_data ''E1'' 1024 0) = 722358853"
  by (simp add: version_data_def toString10_def digits_of.simps digit_char_def)

lemma toString36_values:
  "toString36 722358853 = ''by2nnp''" "toString36 1000 = ''rs''" "toString36 2000 = ''1jk''"
  by (simp_all add: toString36_def digits_of.simps digit_char_def)

lemma computeVersionId_E1:
  "computeVersionId ''E1'' 1024 0 1000 = ''v_by2nnp_rs''"
  "computeVersionId ''E1'' 1024 0 2000 = ''v_by2nnp_1jk''"
  by (simp_all add: computeVersionId_def hash_E1 toString36_values)

lemma supported_hello: "isSupportedMediaFormat ''hello.wav''"
  by (simp add: isSupportedMediaFormat_def split_def SUPPORTED_FORMATS_def
      SUPPORTED_AUDIO_FORMATS_def SUPPORTED_VIDEO_FORMATS_def toLowerCase_def
      toLowerCase_char_def)

lemmas ingest_simps =
  ingest_E1_def handleObjectCreated_def supported_hello example_metadata_def
  truthy_def computeVersionId_E1 empty_system_def getAssetByKey_def upsertAsset_def
  getAsset_def create_version_and_job_def createVersion_def getVersion_def
  enqueueJob_def bull_add_def Let_def

text \<open>
  Claim C3. \<^verbatim>\<open>computeVersionId\<close> is documented as a deterministic function of
  (etag, size, mtime), but its result ends with \<^verbatim>\<open>Date.now()\<close>: for etag \<open>E1\<close>,
  size 1024 and mtime 0 the call at clock 1000 returns \<open>v_by2nnp_rs\<close> and the call at
  clock 2000 returns \<open>v_by2nnp_1jk\<close>. Ingesting the same object twice, first at clock
  1000 and again at clock 2000, therefore finds no existing version the second time and
  leaves one asset with two version rows and two queued jobs.
\<close>

theorem computeVersionId_not_deterministic:
  "computeVersionId ''E1'' 1024 0 1000 = ''v_by2nnp_rs''
   \<and> computeVersionId ''E1'' 1024 0 2000 = ''v_by2nnp_1jk''
   \<and> map asset_id (media_assets (db
        (ingest_E1 (ingest_E1 empty_system 1000 ''a1'' ''l1'' ''j1'') 2000 ''a2'' ''l2'' ''j2'')))
      = [''a1'']
   \<and> map version_id (asset_versions (db
        (ingest_E1 (ingest_E1 empty_system 1000 ''a1'' ''l1'' ''j1'') 2000 ''a2'' ''l2'' ''j2'')))
      = [''v_by2nnp_rs'', ''v_by2nnp_1jk'']
   \<and> map fst (queue (q
        (ingest_E1 (ingest_E1 empty_system 1000 ''a1'' ''l1'' ''j1'') 2000 ''a2'' ''l2'' ''j2'')))
      = [''j1'', ''j2'']"
  by (simp add: ingest_simps)

subsection \<open>Lemmas on the adapters\<close>

lemma find_map_same:
  assumes "\<And>x. P (f x) = P x"
  shows "find P (map f xs) = map_option f (find P xs)"
  using assms by (induction xs) auto

lemma find_Some_holds: "find P xs = Some x \<Longrightarrow> P x"
  by (induction xs) (auto split: if_splits)

lemma getAsset_id: "getAsset d assetId = Some a \<Longrightarrow> asset_id a = assetId"
  unfolding getAsset_def by (rule find_Some_holds)

lemma updateAssetStatus_accepted:
  assumes "AssetStatus_value st \<in> set asset_status_labels"
  shows "updateAssetStatus assetId st opts d
           = Inr (d\<lparr>media_assets :=
                       map (\<lambda>a. if asset_id a = assetId then update_status_row st opts a else a)
                         (media_assets d)\<rparr>)"
  using assms by (simp add: updateAssetStatus_def)

text \<open>
  \<^verbatim>\<open>PENDING_RETRY\<close> and \<^verbatim>\<open>FAILED\<close> are the two members of the TypeScript enum that
  are no label of the SQL type: the statement is rejected for these two and for no other.
\<close>

lemma asset_status_labels_iff:
  "AssetStatus_value st \<in> set asset_status_labels \<longleftrightarrow> st \<noteq> PENDING_RETRY \<and> st \<noteq> FAILED"
  by (cases st) (simp_all add: asset_status_labels_def)

lemma updateAssetStatus_PENDING_RETRY:
  "updateAssetStatus assetId PENDING_RETRY opts d = Inl (invalid_enum_value ''PENDING_RETRY'')"
  by (simp add: updateAssetStatus_def asset_status_labels_def)

lemma getAsset_update_status_row:
  "getAsset (d\<lparr>media_assets :=
                 map (\<lambda>a. if asset_id a = assetId then update_status_row st opts a else a)
                   (media_assets d)\<rparr>) assetId
     = map_option (update_status_row st opts) (getAsset d assetId)"
proof -
  let ?f = "\<lambda>a. if asset_id a = assetId then update_status_row st opts a else a"
  have "find (\<lambda>a. asset_id a = assetId) (map ?f (media_assets d))
        = map_option ?f (find (\<lambda>a. asset_id a = assetId) (media_assets d))"
    by (rule find_map_same) (simp add: update_status_row_def)
  then have eq: "getAsset (d\<lparr>media_assets := map ?f (media_assets d)\<rparr>) assetId
        = map_option ?f (getAsset d assetId)"
    by (simp add: getAsset_def)
  show ?thesis
  proof (cases "getAsset d assetId")
    case None
    then show ?thesis using eq by simp
  next
    case (Some a)
    then have "asset_id a = assetId" by (rule getAsset_id)
    then show ?thesis using eq Some by simp
  qed
qed

lemma map_of_bull_add_fresh:
  assumes "jobId \<notin> fst ` set entries"
  shows "map_of (bull_add jobId dat entries) jobId = Some dat"
proof -
  have "map_of entries jobId = None" using assms by (simp add: map_of_eq_None_iff)
  then show ?thesis using assms by (simp add: bull_add_def map_add_def)
qed

lemma jitter_eq:
  fixes c r :: real
  shows "c + c * 0.25 * (r * 2 - 1) = 0.75 * c + 0.5 * (c * r)"
  by (simp add: right_diff_distrib)

lemma jitter_bounds:
  fixes c r :: real
  assumes "0 \<le> c" "0 \<le> r" "r < 1"
  shows "0.75 * c \<le> c + c * 0.25 * (r * 2 - 1)" "c + c * 0.25 * (r * 2 - 1) \<le> 1.25 * c"
proof -
  have a: "0 \<le> c * r" using assms by simp
  have b: "c * r \<le> c" using assms by (simp add: mult_left_le)
  show "0.75 * c \<le> c + c * 0.25 * (r * 2 - 1)" unfolding jitter_eq using a by simp
  show "c + c * 0.25 * (r * 2 - 1) \<le> 1.25 * c" unfolding jitter_eq using b by simp
qed

lemma pow_le_300: "((2::real) ^ n \<le> 300) \<longleftrightarrow> ((2::int) ^ n \<le> 300)"
proof -
  have "((2::int) ^ n \<le> 300) \<longleftrightarrow> (real_of_int (2 ^ n) \<le> real_of_int 300)"
    by (simp only: of_int_le_iff)
  also have "\<dots> \<longleftrightarrow> ((2::real) ^ n \<le> 300)" by simp
  finally show ?thesis by simp
qed

lemma capped_three_quarters:
  "0.75 * min (1000 * 2 ^ n) (300000::real) = of_int (min (750 * 2 ^ n) 225000)"
  by (cases "(2::int) ^ n \<le> 300") (simp_all add: min_def pow_le_300)

lemma calculateBackoffDelay_unfold:
  "calculateBackoffDelay n 1000 300000 random
     = \<lfloor>min (1000 * 2 ^ n) 300000 + min (1000 * 2 ^ n) 300000 * 0.25 * (random * 2 - 1)\<rfloor>"
  unfolding calculateBackoffDelay_def Let_def ..

lemma calculateBackoffDelay_bounds:
  assumes "0 \<le> random" "random < 1"
  shows "0.75 * min (1000 * 2 ^ n) 300000
           \<le> real_of_int (calculateBackoffDelay n 1000 300000 random)"
    and "real_of_int (calculateBackoffDelay n 1000 300000 random)
           \<le> 1.25 * min (1000 * 2 ^ n) 300000"
proof -
  define c :: real where "c = min (1000 * 2 ^ n) 300000"
  define x :: real where "x = c + c * 0.25 * (random * 2 - 1)"
  have cpos: "0 \<le> c" by (simp add: c_def)
  have val: "calculateBackoffDelay n 1000 300000 random = \<lfloor>x\<rfloor>"
    unfolding calculateBackoffDelay_unfold x_def c_def ..
  have lo: "0.75 * c \<le> x" and hi: "x \<le> 1.25 * c"
    unfolding x_def using jitter_bounds[OF cpos assms] by blast+
  have tq: "0.75 * c = of_int (min (750 * 2 ^ n) 225000)"
    unfolding c_def by (rule capped_three_quarters)
  have "of_int (min (750 * 2 ^ n) 225000) \<le> x"
    using lo unfolding tq .
  then have "min (750 * 2 ^ n) 225000 \<le> \<lfloor>x\<rfloor>"
    by (simp only: le_floor_iff)
  then have "real_of_int (min (750 * 2 ^ n) 225000) \<le> real_of_int \<lfloor>x\<rfloor>"
    by (simp only: of_int_le_iff)
  then have "0.75 * c \<le> real_of_int \<lfloor>x\<rfloor>" unfolding tq .
  then show "0.75 * min (1000 * 2 ^ n) 300000
               \<le> real_of_int (calculateBackoffDelay n 1000 300000 random)"
    unfolding val c_def .
  have "real_of_int \<lfloor>x\<rfloor> \<le> x" by (rule of_int_floor_le)
  then have "real_of_int \<lfloor>x\<rfloor> \<le> 1.25 * c" using hi by (rule order_trans)
  then show "real_of_int (calculateBackoffDelay n 1000 300000 random)
               \<le> 1.25 * min (1000 * 2 ^ n) 300000"
    unfolding val c_def .
qed

lemma isRetryable_timeout: "isRetryableError ''Connection timeout''"
  by (simp add: isRetryableError_def toLowerCase_def toLowerCase_char_def)

lemma triage_timeout: "determineTriageState ''Connection timeout'' = QUARANTINED_triage"
  by (simp add: determineTriageState_def toLowerCase_def toLowerCase_char_def)

lemma getAsset_example: "getAsset (db (example_system n)) ''a1'' = Some example_asset"
  by (simp add: example_system_def example_db_def getAsset_def example_asset_def)

subsection \<open>Retry and quarantine\<close>

lemma not_retryable_codec: "\<not> isRetryableError ''Unsupported codec''"
  by (simp add: isRetryableError_def toLowerCase_def toLowerCase_char_def)

lemma updateAssetStatus_QUARANTINED:
  "updateAssetStatus assetId QUARANTINED opts d
     = Inr (d\<lparr>media_assets :=
                 map (\<lambda>a. if asset_id a = assetId then update_status_row QUARANTINED opts a else a)
                   (media_assets d)\<rparr>)"
  by (rule updateAssetStatus_accepted) (simp add: asset_status_labels_def)

lemma handleJobError_dead_letter_branch:
  assumes "\<not> isRetryableError msg \<or> j_attempt job + 1 \<ge> MAX_RETRY_ATTEMPTS"
  shows "handleJobError st job msg uuid random now
     = (\<lparr>db = (db st)\<lparr>media_assets :=
                 map (\<lambda>a. if asset_id a = j_asset_id job
                          then update_status_row QUARANTINED
                                 \<lparr>triageState = Some (Some (determineTriageState msg)),
                                  lastError = Some (Some msg),
                                  attemptOpt = Some (j_attempt job + 1),
                                  recommendedAction =
                                    Some (Some (getRecommendedAction (determineTriageState msg)))\<rparr>
                                 a
                          else a) (media_assets (db st))\<rparr>,
          q = moveToDLQ job msg (q st)\<rparr>, None)"
  using assms by (auto simp: handleJobError_def Let_def updateAssetStatus_QUARANTINED)

lemma fail_example_job_assets:
  assumes "\<not> isRetryableError msg \<or> n + 1 \<ge> MAX_RETRY_ATTEMPTS"
  shows "map (\<lambda>a. (status a, triage_state a, recommended_action a))
           (media_assets (db (fst (fail_example_job n msg))))
         = [(QUARANTINED, Some (determineTriageState msg),
             Some (getRecommendedAction (determineTriageState msg)))]"
proof -
  have "\<not> isRetryableError msg \<or> j_attempt (example_job n) + 1 \<ge> MAX_RETRY_ATTEMPTS"
    using assms by (simp add: example_job_def)
  then show ?thesis
    unfolding fail_example_job_def
    by (simp add: handleJobError_dead_letter_branch example_system_def example_db_def
        example_asset_def example_job_def update_status_row_def or_keep_def)
qed

lemma triage_codec: "determineTriageState ''Unsupported codec'' = NEEDS_MEDIA_FIX"
  by (simp add: determineTriageState_def toLowerCase_def toLowerCase_char_def)

lemma isRetryable_engine_busy: "isRetryableError ''Engine busy''"
  by (simp add: isRetryableError_def toLowerCase_def toLowerCase_char_def)

lemma triage_engine_busy: "determineTriageState ''Engine busy'' = NEEDS_ENGINE_TUNING"
  by (simp add: determineTriageState_def toLowerCase_def toLowerCase_char_def)

text \<open>
  Counterexample to C4 as stated: the triage state and the recommended action are not
  those of the classification table of the specification. The example job fails at
  attempt 4 with the retryable error \<open>Connection timeout\<close>: its attempts are exhausted,
  and the asset gets the action \<open>Manual investigation required\<close>, where the table has the
  action of the row \<open>TRANSIENT_* (exhausted)\<close>. It fails at attempt 0 with the
  non-retryable error \<open>Unsupported codec\<close>: the asset gets NEEDS_MEDIA_FIX with the
  action \<open>Re-encode media file with supported codec or fix corruption\<close>, where the table
  has the action of the row \<open>MEDIA_FORMAT\<close>. It fails at attempt 4 with the retryable
  error \<open>Engine busy\<close>: the asset gets NEEDS_ENGINE_TUNING, where the table has
  QUARANTINED for a transient error whose attempts are exhausted.
\<close>

theorem handleJobError_classification_counterexample:
  "isRetryableError ''Connection timeout''
   \<and> j_attempt (example_job 4) = MAX_RETRY_ATTEMPTS - 1
   \<and> map (\<lambda>a. (status a, triage_state a, recommended_action a))
         (media_assets (db (fst (fail_example_job 4 ''Connection timeout''))))
       = [(QUARANTINED, Some QUARANTINED_triage, Some ''Manual investigation required'')]
   \<and> (QUARANTINED_triage, ''Manual investigation required'')
       \<noteq> spec_triage_mapping TRANSIENT_exhausted
   \<and> \<not> isRetryableError ''Unsupported codec''
   \<and> map (\<lambda>a. (status a, triage_state a, recommended_action a))
         (media_assets (db (fst (fail_example_job 0 ''Unsupported codec''))))
       = [(QUARANTINED, Some NEEDS_MEDIA_FIX,
           Some ''Re-encode media file with supported codec or fix corruption'')]
   \<and> (NEEDS_MEDIA_FIX, ''Re-encode media file with supported codec or fix corruption'')
       \<noteq> spec_triage_mapping MEDIA_FORMAT
   \<and> isRetryableError ''Engine busy''
   \<and> map (\<lambda>a. (status a, triage_state a, recommended_action a))
         (media_assets (db (fst (fail_example_job 4 ''Engine busy''))))
       = [(QUARANTINED, Some NEEDS_ENGINE_TUNING,
           Some ''Review ASR engine configuration or try alternative engine'')]
   \<and> NEEDS_ENGINE_TUNING \<noteq> fst (spec_triage_mapping TRANSIENT_exhausted)"
proof -
  have last: "j_attempt (example_job 4) = MAX_RETRY_ATTEMPTS - 1"
    by (simp add: example_job_def MAX_RETRY_ATTEMPTS_def)
  have a4: "map (\<lambda>a. (status a, triage_state a, recommended_action a))
         (media_assets (db (fst (fail_example_job 4 ''Connection timeout''))))
       = [(QUARANTINED, Some QUARANTINED_triage, Some ''Manual investigation required'')]"
    by (simp add: fail_example_job_assets MAX_RETRY_ATTEMPTS_def triage_timeout)
  have s4: "(QUARANTINED_triage, ''Manual investigation required'')
       \<noteq> spec_triage_mapping TRANSIENT_exhausted"
    by (simp add: em_dash_def)
  have a0: "map (\<lambda>a. (status a, triage_state a, recommended_action a))
         (media_assets (db (fst (fail_example_job 0 ''Unsupported codec''))))
       = [(QUARANTINED, Some NEEDS_MEDIA_FIX,
           Some ''Re-encode media file with supported codec or fix corruption'')]"
    by (simp add: fail_example_job_assets not_retryable_codec triage_codec)
  have s0: "(NEEDS_MEDIA_FIX, ''Re-encode media file with supported codec or fix corruption'')
       \<noteq> spec_triage_mapping MEDIA_FORMAT"
    by simp
  have e4: "map (\<lambda>a. (status a, triage_state a, recommended_action a))
         (media_assets (db (fst (fail_example_job 4 ''Engine busy''))))
       = [(QUARANTINED, Some NEEDS_ENGINE_TUNING,
           Some ''Review ASR engine configuration or try alternative engine'')]"
    by (simp add: fail_example_job_assets MAX_RETRY_ATTEMPTS_def triage_engine_busy)
  have se: "NEEDS_ENGINE_TUNING \<noteq> fst (spec_triage_mapping TRANSIENT_exhausted)"
    by simp
  show ?thesis
    by (intro conjI)
      (rule isRetryable_timeout last a4 s4 not_retryable_codec a0 s0 isRetryable_engine_busy
         e4 se)+
qed

text \<open>
  Claim C4, as amended. When a job fails and the error is not retryable, or the failed
  attempt was the last one allowed (\<open>attempt + 1 \<ge> MAX_RETRY_ATTEMPTS\<close>, in particular
  \<open>attempt = MAX_RETRY_ATTEMPTS - 1\<close> with a retryable error), \<^verbatim>\<open>handleJobError\<close>
  returns and sets the job's asset to QUARANTINED with the error message, the incremented
  attempt count, and the triage state and recommended action of the table of the code:
  \<^item> NEEDS_MEDIA_FIX, \<open>Re-encode media file with supported codec or fix corruption\<close>,
    when the lower-cased message contains \<open>codec\<close>, \<open>corrupt\<close> or \<open>invalid format\<close>;
  \<^item> for a retryable error, NEEDS_ENGINE_TUNING, \<open>Review ASR engine configuration or
    try alternative engine\<close>, when the lower-cased message contains \<open>engine\<close>,
    \<open>model\<close> or \<open>transcription\<close>;
  \<^item> for every other retryable error QUARANTINED, \<open>Manual investigation required\<close>.

  The two last rows are those of a retryable error whose attempts are exhausted. The
  statement leaves open what a non-retryable message gets that contains \<open>unsupported\<close>
  and none of the three words of the first row. The dead-letter queue then holds an entry
  \<open>dlq_<job id>\<close> (the job and the error message, when no such entry was there before),
  and the main queue is the old one without the job: nothing is enqueued.
\<close>

theorem handleJobError_dead_letter:
  assumes route: "\<not> isRetryableError msg \<or> j_attempt job + 1 \<ge> MAX_RETRY_ATTEMPTS"
    and asset: "getAsset (db st) (j_asset_id job) = Some a"
  shows "\<exists>st' triage action.
           handleJobError st job msg uuid random now = (st', None)
         \<and> getAsset (db st') (j_asset_id job)
             = Some (a\<lparr>status := QUARANTINED, triage_state := Some triage,
                        last_error := Some msg, attempt := j_attempt job + 1,
                        recommended_action := Some action\<rparr>)
         \<and> (str_includes (toLowerCase msg) ''codec'' \<or> str_includes (toLowerCase msg) ''corrupt''
              \<or> str_includes (toLowerCase msg) ''invalid format''
             \<longrightarrow> triage = NEEDS_MEDIA_FIX
                 \<and> action = ''Re-encode media file with supported codec or fix corruption'')
         \<and> (isRetryableError msg
              \<and> (str_includes (toLowerCase msg) ''engine''
                   \<or> str_includes (toLowerCase msg) ''model''
                   \<or> str_includes (toLowerCase msg) ''transcription'')
             \<longrightarrow> triage = NEEDS_ENGINE_TUNING
                 \<and> action = ''Review ASR engine configuration or try alternative engine'')
         \<and> (isRetryableError msg
              \<and> \<not> (str_includes (toLowerCase msg) ''engine''
                     \<or> str_includes (toLowerCase msg) ''model''
                     \<or> str_includes (toLowerCase msg) ''transcription'')
             \<longrightarrow> triage = QUARANTINED_triage \<and> action = ''Manual investigation required'')
         \<and> (''dlq_'' @ job_id job) \<in> fst ` set (dlqQueue (q st'))
         \<and> (''dlq_'' @ job_id job \<notin> fst ` set (dlqQueue (q st)) \<longrightarrow>
               map_of (dlqQueue (q st')) (''dlq_'' @ job_id job)
                 = Some \<lparr>dlq_job = job, error_message = msg\<rparr>)
         \<and> queue (q st') = bull_remove (job_id job) (queue (q st))"
proof -
  let ?triage = "determineTriageState msg"
  let ?opts = "\<lparr>triageState = Some (Some ?triage), lastError = Some (Some msg),
                attemptOpt = Some (j_attempt job + 1),
                recommendedAction = Some (Some (getRecommendedAction ?triage))\<rparr>"
  let ?d = "(db st)\<lparr>media_assets :=
                 map (\<lambda>a. if asset_id a = j_asset_id job
                          then update_status_row QUARANTINED ?opts a else a)
                   (media_assets (db st))\<rparr>"
  let ?st = "\<lparr>db = ?d, q = moveToDLQ job msg (q st)\<rparr>"
  have result: "handleJobError st job msg uuid random now = (?st, None)"
    using route by (rule handleJobError_dead_letter_branch)
  have "getAsset ?d (j_asset_id job) = map_option (update_status_row QUARANTINED ?opts) (Some a)"
    unfolding asset[symmetric] by (rule getAsset_update_status_row)
  then have row: "getAsset (db ?st) (j_asset_id job)
      = Some (a\<lparr>status := QUARANTINED, triage_state := Some ?triage,
                 last_error := Some msg, attempt := j_attempt job + 1,
                 recommended_action := Some (getRecommendedAction ?triage)\<rparr>)"
    by (simp add: update_status_row_def or_keep_def)
  have retryable: "\<not> (str_includes (toLowerCase msg) ''codec''
                 \<or> str_includes (toLowerCase msg) ''corrupt''
                 \<or> str_includes (toLowerCase msg) ''invalid format'')"
    if "isRetryableError msg"
    using that by (auto simp: isRetryableError_def Let_def split: if_splits)
  have media: "str_includes (toLowerCase msg) ''codec'' \<or> str_includes (toLowerCase msg) ''corrupt''
              \<or> str_includes (toLowerCase msg) ''invalid format''
             \<longrightarrow> ?triage = NEEDS_MEDIA_FIX
                 \<and> getRecommendedAction ?triage
                     = ''Re-encode media file with supported codec or fix corruption''"
    by (simp add: determineTriageState_def Let_def)
  have engine: "isRetryableError msg
              \<and> (str_includes (toLowerCase msg) ''engine''
                   \<or> str_includes (toLowerCase msg) ''model''
                   \<or> str_includes (toLowerCase msg) ''transcription'')
             \<longrightarrow> ?triage = NEEDS_ENGINE_TUNING
                 \<and> getRecommendedAction ?triage
                     = ''Review ASR engine configuration or try alternative engine''"
    using retryable by (simp add: determineTriageState_def Let_def)
  have other: "isRetryableError msg
              \<and> \<not> (str_includes (toLowerCase msg) ''engine''
                     \<or> str_includes (toLowerCase msg) ''model''
                     \<or> str_includes (toLowerCase msg) ''transcription'')
             \<longrightarrow> ?triage = QUARANTINED_triage
                 \<and> getRecommendedAction ?triage = ''Manual investigation required''"
    using retryable by (simp add: determineTriageState_def Let_def)
  have dlq: "(''dlq_'' @ job_id job) \<in> fst ` set (dlqQueue (q ?st))"
    by (auto simp: moveToDLQ_def bull_add_def)
  have fresh: "''dlq_'' @ job_id job \<notin> fst ` set (dlqQueue (q st)) \<longrightarrow>
       map_of (dlqQueue (q ?st)) (''dlq_'' @ job_id job)
         = Some \<lparr>dlq_job = job, error_message = msg\<rparr>"
    by (simp add: moveToDLQ_def map_of_bull_add_fresh)
  have queue: "queue (q ?st) = bull_remove (job_id job) (queue (q st))"
    by (simp add: moveToDLQ_def)
  show ?thesis
    using result row media engine other dlq fresh queue by blast
qed

text \<open>
  Witness for C4: the example job fails at attempt 4 with the retryable error
  \<open>Connection timeout\<close> (attempts exhausted, last row of the table), at attempt 0
  with the non-retryable error \<open>Unsupported codec\<close> (first row), and at attempt 4 with
  the retryable error \<open>Engine busy\<close> (second row).
\<close>

theorem handleJobError_dead_letter_witness:
  "isRetryableError ''Connection timeout''
   \<and> j_attempt (example_job 4) = MAX_RETRY_ATTEMPTS - 1
   \<and> snd (fail_example_job 4 ''Connection timeout'') = None
   \<and> getAsset (db (fst (fail_example_job 4 ''Connection timeout''))) ''a1''
       = Some (example_asset\<lparr>status := QUARANTINED, triage_state := Some QUARANTINED_triage,
                 last_error := Some ''Connection timeout'', attempt := 5,
                 recommended_action := Some ''Manual investigation required''\<rparr>)
   \<and> map_of (dlqQueue (q (fst (fail_example_job 4 ''Connection timeout'')))) ''dlq_j1''
       = Some \<lparr>dlq_job = example_job 4, error_message = ''Connection timeout''\<rparr>
   \<and> queue (q (fst (fail_example_job 4 ''Connection timeout''))) = []
   \<and> \<not> isRetryableError ''Unsupported codec''
   \<and> snd (fail_example_job 0 ''Unsupported codec'') = None
   \<and> getAsset (db (fst (fail_example_job 0 ''Unsupported codec''))) ''a1''
       = Some (example_asset\<lparr>status := QUARANTINED, triage_state := Some NEEDS_MEDIA_FIX,
                 last_error := Some ''Unsupported codec'', attempt := 1,
                 recommended_action :=
                   Some ''Re-encode media file with supported codec or fix corruption''\<rparr>)
   \<and> queue (q (fst (fail_example_job 0 ''Unsupported codec''))) = []
   \<and> isRetryableError ''Engine busy''
   \<and> getAsset (db (fst (fail_example_job 4 ''Engine busy''))) ''a1''
       = Some (example_asset\<lparr>status := QUARANTINED, triage_state := Some NEEDS_ENGINE_TUNING,
                 last_error := Some ''Engine busy'', attempt := 5,
                 recommended_action :=
                   Some ''Review ASR engine configuration or try alternative engine''\<rparr>)"
proof -
  have last: "j_attempt (example_job 4) = MAX_RETRY_ATTEMPTS - 1"
    by (simp add: example_job_def MAX_RETRY_ATTEMPTS_def)
  have ids: "j_asset_id (example_job n) = ''a1''" "job_id (example_job n) = ''j1''"
    "j_attempt (example_job n) = n" for n
    by (simp_all add: example_job_def)
  have queues: "dlqQueue (q (example_system n)) = []"
    "queue (q (example_system n)) = [(''j1'', \<lparr>job_data = example_job n, delay = 0\<rparr>)]" for n
    by (simp_all add: example_system_def)
  have asset: "getAsset (db (example_system n)) (j_asset_id (example_job n)) = Some example_asset"
    for n
    by (simp add: getAsset_example ids)
  have route4: "\<not> isRetryableError ''Connection timeout''
      \<or> j_attempt (example_job 4) + 1 \<ge> MAX_RETRY_ATTEMPTS"
    by (simp add: ids MAX_RETRY_ATTEMPTS_def)
  have words4: "isRetryableError ''Connection timeout''
              \<and> \<not> (str_includes (toLowerCase ''Connection timeout'') ''engine''
                     \<or> str_includes (toLowerCase ''Connection timeout'') ''model''
                     \<or> str_includes (toLowerCase ''Connection timeout'') ''transcription'')"
    by (simp add: isRetryable_timeout toLowerCase_def toLowerCase_char_def)
  from handleJobError_dead_letter [OF route4 asset, of "''j2''" "1 / 2" 0]
  obtain st4 triage4 action4 where
    r4: "fail_example_job 4 ''Connection timeout'' = (st4, None)"
    and a4: "getAsset (db st4) ''a1''
      = Some (example_asset\<lparr>status := QUARANTINED, triage_state := Some triage4,
                last_error := Some ''Connection timeout'', attempt := 5,
                recommended_action := Some action4\<rparr>)"
    and t4: "triage4 = QUARANTINED_triage \<and> action4 = ''Manual investigation required''"
    and d4: "map_of (dlqQueue (q st4)) ''dlq_j1''
      = Some \<lparr>dlq_job = example_job 4, error_message = ''Connection timeout''\<rparr>"
    and q4: "queue (q st4) = []"
    unfolding fail_example_job_def using words4
    by (auto simp: ids queues bull_remove_def)
  have route0: "\<not> isRetryableError ''Unsupported codec''
      \<or> j_attempt (example_job 0) + 1 \<ge> MAX_RETRY_ATTEMPTS"
    by (simp add: not_retryable_codec)
  have words0: "str_includes (toLowerCase ''Unsupported codec'') ''codec''"
    by (simp add: toLowerCase_def toLowerCase_char_def)
  from handleJobError_dead_letter [OF route0 asset, of "''j2''" "1 / 2" 0]
  obtain st0 triage0 action0 where
    r0: "fail_example_job 0 ''Unsupported codec'' = (st0, None)"
    and a0: "getAsset (db st0) ''a1''
      = Some (example_asset\<lparr>status := QUARANTINED, triage_state := Some triage0,
                last_error := Some ''Unsupported codec'', attempt := 1,
                recommended_action := Some action0\<rparr>)"
    and t0: "triage0 = NEEDS_MEDIA_FIX
      \<and> action0 = ''Re-encode media file with supported codec or fix corruption''"
    and q0: "queue (q st0) = []"
    unfolding fail_example_job_def using words0
    by (auto simp: ids queues bull_remove_def)
  have routeE: "\<not> isRetryableError ''Engine busy''
      \<or> j_attempt (example_job 4) + 1 \<ge> MAX_RETRY_ATTEMPTS"
    by (simp add: ids MAX_RETRY_ATTEMPTS_def)
  have wordsE: "isRetryableError ''Engine busy''
      \<and> (str_includes (toLowerCase ''Engine busy'') ''engine''
           \<or> str_includes (toLowerCase ''Engine busy'') ''model''
           \<or> str_includes (toLowerCase ''Engine busy'') ''transcription'')"
    by (simp add: isRetryable_engine_busy toLowerCase_def toLowerCase_char_def)
  from handleJobError_dead_letter [OF routeE asset, of "''j2''" "1 / 2" 0]
  obtain stE triageE actionE where
    rE: "fail_example_job 4 ''Engine busy'' = (stE, None)"
    and aE: "getAsset (db stE) ''a1''
      = Some (example_asset\<lparr>status := QUARANTINED, triage_state := Some triageE,
                last_error := Some ''Engine busy'', attempt := 5,
                recommended_action := Some actionE\<rparr>)"
    and tE: "triageE = NEEDS_ENGINE_TUNING
      \<and> actionE = ''Review ASR engine configuration or try alternative engine''"
    unfolding fail_example_job_def using wordsE
    by (auto simp: ids queues bull_remove_def)
  show ?thesis
    unfolding r4 r0 rE
    using isRetryable_timeout last not_retryable_codec a4 t4 d4 q4 a0 t0 q0
      isRetryable_engine_busy aE tE
    by simp
qed

lemma handleJobError_retry_branch:
  assumes "isRetryableError msg" and "j_attempt job + 1 < MAX_RETRY_ATTEMPTS"
  shows "handleJobError st job msg uuid random now
           = (st, Some (invalid_enum_value ''PENDING_RETRY''))"
  using assms by (simp add: handleJobError_def Let_def updateAssetStatus_PENDING_RETRY)

text \<open>
  Claim C5. The retry branch of \<^verbatim>\<open>handleJobError\<close> writes the status
  \<^verbatim>\<open>PENDING_RETRY\<close> before it enqueues the retry, and the SQL type \<^verbatim>\<open>asset_status\<close>
  has no such label: the update throws, so \<^verbatim>\<open>enqueueJobWithDelay\<close> and \<^verbatim>\<open>ackJob\<close>
  are not reached. When the example job fails at attempt 0 with the retryable error
  \<open>Connection timeout\<close>, the call throws and leaves the state as it was: the queue holds
  the failed job \<open>j1\<close> and no retry \<open>j2\<close>, and the asset keeps its status, without the
  error message and with attempt count 0.
\<close>

theorem handleJobError_retry_throws:
  "isRetryableError ''Connection timeout''
   \<and> j_attempt (example_job 0) + 1 < MAX_RETRY_ATTEMPTS
   \<and> fail_example_job 0 ''Connection timeout''
       = (example_system 0, Some (invalid_enum_value ''PENDING_RETRY''))
   \<and> map fst (queue (q (fst (fail_example_job 0 ''Connection timeout'')))) = [''j1'']
   \<and> map (\<lambda>a. (status a, last_error a, attempt a))
         (media_assets (db (fst (fail_example_job 0 ''Connection timeout''))))
       = [(TRANSCRIBING, None, 0)]"
proof -
  have attempts: "j_attempt (example_job 0) + 1 < MAX_RETRY_ATTEMPTS"
    by (simp add: example_job_def MAX_RETRY_ATTEMPTS_def)
  have thrown: "fail_example_job 0 ''Connection timeout''
       = (example_system 0, Some (invalid_enum_value ''PENDING_RETRY''))"
    unfolding fail_example_job_def
    using isRetryable_timeout attempts by (rule handleJobError_retry_branch)
  have queue: "map fst (queue (q (fst (fail_example_job 0 ''Connection timeout'')))) = [''j1'']"
    unfolding thrown by (simp add: example_system_def)
  have asset: "map (\<lambda>a. (status a, last_error a, attempt a))
         (media_assets (db (fst (fail_example_job 0 ''Connection timeout''))))
       = [(TRANSCRIBING, None, 0)]"
    unfolding thrown by (simp add: example_system_def example_db_def example_asset_def)
  show ?thesis
    by (intro conjI) (rule isRetryable_timeout attempts thrown queue asset)+
qed

subsection \<open>Publishing a version and removing an object\<close>

lemmas example_db_simps =
  example_db_def example_asset_def example_segment_def example_embedding_def

lemmas statement_simps =
  getAsset_def getAssetByKey_def truthy_def updateSegmentVisibility_def
  updateEmbeddingVisibility_def setCurrentVersion_def updateAssetStatus_def
  update_status_row_def or_keep_def no_options_def tombstoneAsset_def
  softDeleteSegments_def softDeleteEmbeddings_def committed_def asset_status_labels_def

lemma getAssetByKey_example:
  "getAssetByKey example_db ''media'' ''hello.wav'' = Some example_asset"
  "asset_id example_asset = ''a1''"
  by (simp_all add: getAssetByKey_def example_db_def example_asset_def)

lemma publishVersion_statements_example:
  "publishVersion_statements example_db ''a1'' ''v2'' =
     [updateSegmentVisibility ''a1'' ''v1'' ARCHIVED,
      updateEmbeddingVisibility ''a1'' ''v1'' ARCHIVED,
      updateSegmentVisibility ''a1'' ''v2'' ACTIVE,
      updateEmbeddingVisibility ''a1'' ''v2'' ACTIVE,
      setCurrentVersion ''a1'' ''v2'',
      committed (updateAssetStatus ''a1'' INDEXED no_options)]"
  by (simp add: publishVersion_statements_def getAsset_def truthy_def example_db_simps)

text \<open>
  Claim C2. \<^verbatim>\<open>publishVersion\<close> opens a transaction, but its six statements run on the
  pool and commit one by one. Publishing \<open>v2\<close> for the example asset, whose current
  version is \<open>v1\<close>, passes through seven committed states. After the first statement
  the pointer still names \<open>v1\<close> while the segments of \<open>v1\<close> are ARCHIVED and its
  embeddings ACTIVE; after the third the segments of \<open>v2\<close> are ACTIVE, its embeddings
  STAGING, and the pointer still names \<open>v1\<close>. A reader between two statements, or any
  reader after a statement has thrown, sees such a state. In the last state the pointer
  names \<open>v2\<close>, whose \<^verbatim>\<open>publish_state\<close> is still STAGING: no statement writes it.
\<close>

theorem publishVersion_not_atomic:
  "length (publishVersion_trace example_db ''a1'' ''v2'') = 7
   \<and> map current_version_id (media_assets (publishVersion_trace example_db ''a1'' ''v2'' ! 1))
       = [Some ''v1'']
   \<and> map (\<lambda>s. (s_version_id s, s_visibility s))
         (transcript_segments (publishVersion_trace example_db ''a1'' ''v2'' ! 1))
       = [(''v1'', ARCHIVED), (''v2'', STAGING)]
   \<and> map (\<lambda>e. (e_version_id e, e_visibility e))
         (transcript_embeddings (publishVersion_trace example_db ''a1'' ''v2'' ! 1))
       = [(''v1'', ACTIVE), (''v2'', STAGING)]
   \<and> map current_version_id (media_assets (publishVersion_trace example_db ''a1'' ''v2'' ! 3))
       = [Some ''v1'']
   \<and> map (\<lambda>s. (s_version_id s, s_visibility s))
         (transcript_segments (publishVersion_trace example_db ''a1'' ''v2'' ! 3))
       = [(''v1'', ARCHIVED), (''v2'', ACTIVE)]
   \<and> map (\<lambda>e. (e_version_id e, e_visibility e))
         (transcript_embeddings (publishVersion_trace example_db ''a1'' ''v2'' ! 3))
       = [(''v1'', ARCHIVED), (''v2'', STAGING)]
   \<and> map current_version_id (media_assets (publishVersion_trace example_db ''a1'' ''v2'' ! 6))
       = [Some ''v2'']
   \<and> map (\<lambda>v. (version_id v, publish_state v))
         (asset_versions (publishVersion_trace example_db ''a1'' ''v2'' ! 6))
       = [(''v1'', STAGING), (''v2'', STAGING)]"
  unfolding publishVersion_trace_def publishVersion_statements_example trace.simps
  by (simp add: example_db_simps statement_simps)

text \<open>
  Counterexample to C7 as stated: \<^verbatim>\<open>handleObjectRemoved\<close> uses no transaction. Removing
  the example object passes through four committed states; after the first statement the
  asset is tombstoned, DELETED and without current version while its segment and
  embedding of \<open>v1\<close> are still ACTIVE.
\<close>

theorem handleObjectRemoved_counterexample:
  "length (handleObjectRemoved_trace example_db ''media'' ''hello.wav'') = 4
   \<and> map (\<lambda>a. (tombstone a, status a, current_version_id a))
         (media_assets (handleObjectRemoved_trace example_db ''media'' ''hello.wav'' ! 1))
       = [(True, DELETED, None)]
   \<and> map s_visibility
         (transcript_segments (handleObjectRemoved_trace example_db ''media'' ''hello.wav'' ! 1))
       = [ACTIVE, STAGING]
   \<and> map e_visibility
         (transcript_embeddings (handleObjectRemoved_trace example_db ''media'' ''hello.wav'' ! 1))
       = [ACTIVE, STAGING]"
  unfolding handleObjectRemoved_trace_def getAssetByKey_example option.case trace.simps
  by (simp add: example_db_simps statement_simps)


lemma getAssetByKey_tombstoneAsset:
  "getAssetByKey (tombstoneAsset assetId d) bkt objectKey
     = map_option (\<lambda>a. if asset_id a = assetId
                         then a\<lparr>tombstone := True, status := DELETED, current_version_id := None\<rparr>
                         else a)
         (getAssetByKey d bkt objectKey)"
  unfolding getAssetByKey_def tombstoneAsset_def
  by (simp add: find_map_same)

lemma media_assets_softDelete:
  "media_assets (softDeleteSegments assetId d) = media_assets d"
  "media_assets (softDeleteEmbeddings assetId d) = media_assets d"
  "transcript_segments (softDeleteEmbeddings assetId d) = transcript_segments d"
  by (simp_all add: softDeleteSegments_def softDeleteEmbeddings_def)

lemma getAssetByKey_softDelete:
  "getAssetByKey (softDeleteSegments assetId d) bkt objectKey = getAssetByKey d bkt objectKey"
  "getAssetByKey (softDeleteEmbeddings assetId d) bkt objectKey = getAssetByKey d bkt objectKey"
  by (simp_all add: getAssetByKey_def media_assets_softDelete)

text \<open>
  Claim C7, as amended. When no asset has the key, \<^verbatim>\<open>handleObjectRemoved\<close> changes
  nothing. When an asset has it, then after the call the asset is tombstoned, its status
  is DELETED and its current version is null, and every segment and every embedding of
  the asset is SOFT_DELETED; the call reaches that state by three statements that commit
  one after the other (tombstone, soft-delete of the segments, soft-delete of the
  embeddings), not in one transaction.
\<close>

theorem handleObjectRemoved_effects:
  "(getAssetByKey d bkt objectKey = None \<longrightarrow> handleObjectRemoved d bkt objectKey = d)
   \<and> (\<forall>asset. getAssetByKey d bkt objectKey = Some asset \<longrightarrow>
         getAssetByKey (handleObjectRemoved d bkt objectKey) bkt objectKey
           = Some (asset\<lparr>tombstone := True, status := DELETED, current_version_id := None\<rparr>)
         \<and> (\<forall>a \<in> set (media_assets (handleObjectRemoved d bkt objectKey)).
               asset_id a = asset_id asset \<longrightarrow>
                 tombstone a \<and> status a = DELETED \<and> current_version_id a = None)
         \<and> (\<forall>s \<in> set (transcript_segments (handleObjectRemoved d bkt objectKey)).
               s_asset_id s = asset_id asset \<longrightarrow> s_visibility s = SOFT_DELETED)
         \<and> (\<forall>e \<in> set (transcript_embeddings (handleObjectRemoved d bkt objectKey)).
               e_asset_id e = asset_id asset \<longrightarrow> e_visibility e = SOFT_DELETED)
         \<and> handleObjectRemoved_trace d bkt objectKey
             = [d, tombstoneAsset (asset_id asset) d,
                softDeleteSegments (asset_id asset) (tombstoneAsset (asset_id asset) d),
                handleObjectRemoved d bkt objectKey])"
proof (intro conjI allI impI)
  assume "getAssetByKey d bkt objectKey = None"
  then show "handleObjectRemoved d bkt objectKey = d"
    by (simp add: handleObjectRemoved_def)
next
  fix asset
  assume found: "getAssetByKey d bkt objectKey = Some asset"
  let ?i = "asset_id asset"
  have final: "handleObjectRemoved d bkt objectKey
      = softDeleteEmbeddings ?i (softDeleteSegments ?i (tombstoneAsset ?i d))"
    using found by (simp add: handleObjectRemoved_def)
  show "getAssetByKey (handleObjectRemoved d bkt objectKey) bkt objectKey
           = Some (asset\<lparr>tombstone := True, status := DELETED, current_version_id := None\<rparr>)"
    unfolding final using found
    by (simp add: getAssetByKey_softDelete getAssetByKey_tombstoneAsset)
  show "\<forall>a \<in> set (media_assets (handleObjectRemoved d bkt objectKey)).
               asset_id a = asset_id asset \<longrightarrow>
                 tombstone a \<and> status a = DELETED \<and> current_version_id a = None"
    unfolding final by (auto simp: media_assets_softDelete tombstoneAsset_def)
  show "\<forall>s \<in> set (transcript_segments (handleObjectRemoved d bkt objectKey)).
               s_asset_id s = asset_id asset \<longrightarrow> s_visibility s = SOFT_DELETED"
    unfolding final
    by (auto simp: media_assets_softDelete softDeleteSegments_def tombstoneAsset_def)
  show "\<forall>e \<in> set (transcript_embeddings (handleObjectRemoved d bkt objectKey)).
               e_asset_id e = asset_id asset \<longrightarrow> e_visibility e = SOFT_DELETED"
    unfolding final by (auto simp: softDeleteEmbeddings_def)
  show "handleObjectRemoved_trace d bkt objectKey
             = [d, tombstoneAsset (asset_id asset) d,
                softDeleteSegments (asset_id asset) (tombstoneAsset (asset_id asset) d),
                handleObjectRemoved d bkt objectKey]"
    unfolding final using found by (simp add: handleObjectRemoved_trace_def)
qed

lemma getAssetByKey_other: "getAssetByKey example_db ''media'' ''other.wav'' = None"
  by (simp add: getAssetByKey_def example_db_def example_asset_def)

text \<open>
  Witness for C7: the example object \<open>hello.wav\<close> (present) and \<open>other.wav\<close> (absent).
\<close>

theorem handleObjectRemoved_effects_witness:
  "getAssetByKey example_db ''media'' ''hello.wav'' = Some example_asset
   \<and> getAssetByKey (handleObjectRemoved example_db ''media'' ''hello.wav'') ''media'' ''hello.wav''
       = Some (example_asset\<lparr>tombstone := True, status := DELETED, current_version_id := None\<rparr>)
   \<and> map s_visibility (transcript_segments (handleObjectRemoved example_db ''media'' ''hello.wav''))
       = [SOFT_DELETED, SOFT_DELETED]
   \<and> map e_visibility (transcript_embeddings
         (handleObjectRemoved example_db ''media'' ''hello.wav''))
       = [SOFT_DELETED, SOFT_DELETED]
   \<and> getAssetByKey example_db ''media'' ''other.wav'' = None
   \<and> handleObjectRemoved example_db ''media'' ''other.wav'' = example_db"
proof -
  note present = handleObjectRemoved_effects [of example_db "''media''" "''hello.wav''"]
  note absent = handleObjectRemoved_effects [of example_db "''media''" "''other.wav''"]
  have k: "getAssetByKey (handleObjectRemoved example_db ''media'' ''hello.wav'')
             ''media'' ''hello.wav''
       = Some (example_asset\<lparr>tombstone := True, status := DELETED, current_version_id := None\<rparr>)"
    using present getAssetByKey_example(1) by blast
  have n: "handleObjectRemoved example_db ''media'' ''other.wav'' = example_db"
    using absent getAssetByKey_other by blast
  have final: "handleObjectRemoved example_db ''media'' ''hello.wav''
      = softDeleteEmbeddings ''a1'' (softDeleteSegments ''a1'' (tombstoneAsset ''a1'' example_db))"
    by (simp add: handleObjectRemoved_def getAssetByKey_example)
  have s: "map s_visibility (transcript_segments
         (handleObjectRemoved example_db ''media'' ''hello.wav'')) = [SOFT_DELETED, SOFT_DELETED]"
    unfolding final by (simp add: example_db_simps statement_simps)
  have e: "map e_visibility (transcript_embeddings
         (handleObjectRemoved example_db ''media'' ''hello.wav'')) = [SOFT_DELETED, SOFT_DELETED]"
    unfolding final by (simp add: example_db_simps statement_simps)
  show ?thesis
    by (intro conjI) (rule getAssetByKey_example(1) k s e getAssetByKey_other n)+
qed

subsection \<open>Query layer\<close>

text \<open>
  The two SQL functions of the PostgreSQL path apply the three filters: every row they
  return is an ACTIVE segment (and embedding) of the current version of an asset that is
  not tombstoned.
\<close>

lemma search_keyword_rows_subset:
  "set (search_keyword_rows matches rank d query_text result_limit result_offset
          bucket_filter speaker_filter)
     \<subseteq> {row \<in> set (segments_join_assets d).
          keyword_where matches query_text bucket_filter speaker_filter row}"
proof -
  let ?xs = "filter (keyword_where matches query_text bucket_filter speaker_filter)
               (segments_join_assets d)"
  have "set (take result_limit (drop result_offset
          (sort_key (\<lambda>(s, a). - rank (s_text s) query_text) ?xs))) \<subseteq> set ?xs"
    using set_take_subset set_drop_subset by fastforce
  then show ?thesis by (auto simp: search_keyword_rows_def)
qed

lemma segments_join_assets_rows:
  "(s, a) \<in> set (segments_join_assets d) \<Longrightarrow>
     s \<in> set (transcript_segments d) \<and> a \<in> set (media_assets d) \<and> s_asset_id s = asset_id a"
  by (auto simp: segments_join_assets_def)

lemma search_keyword_rows_filtered:
  assumes "(s, a) \<in> set (search_keyword_rows matches rank d query_text result_limit
                            result_offset bucket_filter speaker_filter)"
  shows "s \<in> set (transcript_segments d) \<and> a \<in> set (media_assets d)
         \<and> s_asset_id s = asset_id a \<and> s_visibility s = ACTIVE
         \<and> current_version_id a = Some (s_version_id s) \<and> \<not> tombstone a"
proof -
  from assms search_keyword_rows_subset
  have j: "(s, a) \<in> set (segments_join_assets d)"
    and w: "keyword_where matches query_text bucket_filter speaker_filter (s, a)"
    by blast+
  from w have "s_visibility s = ACTIVE \<and> current_version_id a = Some (s_version_id s)
      \<and> \<not> tombstone a"
    by (simp add: keyword_where_def)
  with segments_join_assets_rows[OF j] show ?thesis by blast
qed

lemma search_semantic_rows_subset:
  "set (search_semantic_rows distance d query_embedding result_limit result_offset
          bucket_filter speaker_filter)
     \<subseteq> {row \<in> set (embeddings_join d). semantic_where bucket_filter speaker_filter row}"
proof -
  let ?xs = "filter (semantic_where bucket_filter speaker_filter) (embeddings_join d)"
  have "set (take result_limit (drop result_offset
          (sort_key (\<lambda>(e, s, a). distance (embedding e) query_embedding) ?xs))) \<subseteq> set ?xs"
    using set_take_subset set_drop_subset by fastforce
  then show ?thesis by (auto simp: search_semantic_rows_def)
qed

lemma embeddings_join_rows:
  "(e, s, a) \<in> set (embeddings_join d) \<Longrightarrow>
     e \<in> set (transcript_embeddings d) \<and> s \<in> set (transcript_segments d)
     \<and> a \<in> set (media_assets d) \<and> e_asset_id e = asset_id a \<and> e_asset_id e = s_asset_id s
     \<and> e_version_id e = s_version_id s \<and> e_segment_id e = segment_id s"
  by (auto simp: embeddings_join_def)

lemma search_semantic_rows_filtered:
  assumes "(e, s, a) \<in> set (search_semantic_rows distance d query_embedding result_limit
                               result_offset bucket_filter speaker_filter)"
  shows "e \<in> set (transcript_embeddings d) \<and> s \<in> set (transcript_segments d)
         \<and> a \<in> set (media_assets d) \<and> e_asset_id e = asset_id a
         \<and> e_segment_id e = segment_id s
         \<and> e_visibility e = ACTIVE \<and> s_visibility s = ACTIVE
         \<and> current_version_id a = Some (e_version_id e)
         \<and> s_version_id s = e_version_id e \<and> \<not> tombstone a"
proof -
  from assms search_semantic_rows_subset
  have j: "(e, s, a) \<in> set (embeddings_join d)"
    and w: "semantic_where bucket_filter speaker_filter (e, s, a)"
    by blast+
  from w have "e_visibility e = ACTIVE \<and> s_visibility s = ACTIVE
      \<and> current_version_id a = Some (e_version_id e) \<and> \<not> tombstone a"
    by (simp add: semantic_where_def)
  with embeddings_join_rows[OF j] show ?thesis by simp
qed

lemma searchKeyword_hits:
  assumes "h \<in> set (searchKeyword matches rank headline d qr)"
  shows "\<exists>s a. h = keyword_hit rank headline (query qr) (s, a)
           \<and> s \<in> set (transcript_segments d) \<and> a \<in> set (media_assets d)
           \<and> s_asset_id s = asset_id a \<and> s_visibility s = ACTIVE
           \<and> current_version_id a = Some (s_version_id s) \<and> \<not> tombstone a"
proof -
  from assms obtain row where
    row: "row \<in> set (search_keyword_rows matches rank d (query qr) (limit qr) (offset qr)
                       (or_null (q_bucket qr)) (or_null (q_speaker qr)))"
    and h: "h = keyword_hit rank headline (query qr) row"
    unfolding searchKeyword_def set_map by (elim imageE) (rule that)
  obtain s a where sa: "row = (s, a)" by (cases row)
  from row have "s \<in> set (transcript_segments d) \<and> a \<in> set (media_assets d)
         \<and> s_asset_id s = asset_id a \<and> s_visibility s = ACTIVE
         \<and> current_version_id a = Some (s_version_id s) \<and> \<not> tombstone a"
    unfolding sa by (rule search_keyword_rows_filtered)
  with h[unfolded sa] have "h = keyword_hit rank headline (query qr) (s, a)
           \<and> s \<in> set (transcript_segments d) \<and> a \<in> set (media_assets d)
           \<and> s_asset_id s = asset_id a \<and> s_visibility s = ACTIVE
           \<and> current_version_id a = Some (s_version_id s) \<and> \<not> tombstone a"
    by (rule conjI)
  then show ?thesis by (intro exI)
qed

lemma searchSemantic_hits:
  assumes "h \<in> set (searchSemantic distance d qr queryEmbedding)"
  shows "\<exists>e s a. h = semantic_hit distance queryEmbedding (e, s, a)
           \<and> e \<in> set (transcript_embeddings d) \<and> s \<in> set (transcript_segments d)
           \<and> a \<in> set (media_assets d) \<and> e_asset_id e = asset_id a
           \<and> e_segment_id e = segment_id s
           \<and> e_visibility e = ACTIVE \<and> s_visibility s = ACTIVE
           \<and> current_version_id a = Some (e_version_id e)
           \<and> s_version_id s = e_version_id e \<and> \<not> tombstone a"
proof -
  from assms obtain row where
    row: "row \<in> set (search_semantic_rows distance d queryEmbedding (limit qr) (offset qr)
                       (or_null (q_bucket qr)) (or_null (q_speaker qr)))"
    and h: "h = semantic_hit distance queryEmbedding row"
    unfolding searchSemantic_def set_map by (elim imageE) (rule that)
  obtain e s a where esa: "row = (e, s, a)" by (cases row)
  from row have "e \<in> set (transcript_embeddings d) \<and> s \<in> set (transcript_segments d)
         \<and> a \<in> set (media_assets d) \<and> e_asset_id e = asset_id a
         \<and> e_segment_id e = segment_id s
         \<and> e_visibility e = ACTIVE \<and> s_visibility s = ACTIVE
         \<and> current_version_id a = Some (e_version_id e)
         \<and> s_version_id s = e_version_id e \<and> \<not> tombstone a"
    unfolding esa by (rule search_semantic_rows_filtered)
  with h[unfolded esa] have "h = semantic_hit distance queryEmbedding (e, s, a)
           \<and> e \<in> set (transcript_embeddings d) \<and> s \<in> set (transcript_segments d)
           \<and> a \<in> set (media_assets d) \<and> e_asset_id e = asset_id a
           \<and> e_segment_id e = segment_id s
           \<and> e_visibility e = ACTIVE \<and> s_visibility s = ACTIVE
           \<and> current_version_id a = Some (e_version_id e)
           \<and> s_version_id s = e_version_id e \<and> \<not> tombstone a"
    by (rule conjI)
  then show ?thesis by (intro exI)
qed

text \<open>
  The merge of the PostgreSQL hybrid search keeps hits of its two inputs: every hit of
  the result is a hit of the keyword results or of the semantic results with the merged
  score.
\<close>

lemma set_map_set: "set (map_set m k v) \<subseteq> insert (k, v) (set m)"
  by (induction m) (auto split: if_splits)

lemma values_map_set:
  "fst ` snd ` set (map_set m k (h, x)) \<subseteq> insert h (fst ` snd ` set m)"
proof -
  have "fst ` snd ` set (map_set m k (h, x)) \<subseteq> fst ` snd ` insert (k, h, x) (set m)"
    by (intro image_mono) (rule set_map_set)
  then show ?thesis by simp
qed

lemma map_get_in_set: "map_get m k = Some v \<Longrightarrow> (k, v) \<in> set m"
proof (induction m)
  case Nil
  then show ?case by simp
next
  case (Cons a m)
  obtain k' v' where a: "a = (k', v')" by (cases a)
  show ?case
  proof (cases "k' = k")
    case True
    with Cons.prems a show ?thesis by simp
  next
    case False
    with Cons.prems a have "map_get m k = Some v" by simp
    then have "(k, v) \<in> set m" by (rule Cons.IH)
    then show ?thesis by simp
  qed
qed

lemma subset_insert_step:
  "A \<subseteq> B \<union> C \<Longrightarrow> B \<subseteq> insert h M \<Longrightarrow> A \<subseteq> M \<union> insert h C"
  by blast

lemma pg_keyword_fold_hits:
  "fst ` snd ` set (foldl (pg_add_keyword_hit w) m hits) \<subseteq> fst ` snd ` set m \<union> set hits"
proof (induction hits arbitrary: m)
  case Nil
  show ?case unfolding foldl_Nil by (rule Un_upper1)
next
  case (Cons h hs)
  have step: "fst ` snd ` set (pg_add_keyword_hit w m h) \<subseteq> insert h (fst ` snd ` set m)"
    unfolding pg_add_keyword_hit_def by (rule values_map_set)
  have "fst ` snd ` set (foldl (pg_add_keyword_hit w) (pg_add_keyword_hit w m h) hs)
      \<subseteq> fst ` snd ` set (pg_add_keyword_hit w m h) \<union> set hs"
    by (rule Cons)
  then have "fst ` snd ` set (foldl (pg_add_keyword_hit w) (pg_add_keyword_hit w m h) hs)
      \<subseteq> fst ` snd ` set m \<union> insert h (set hs)"
    using step by (rule subset_insert_step)
  then show ?case unfolding foldl_Cons list.set .
qed

lemma pg_semantic_step_hits:
  "fst ` snd ` set (pg_add_semantic_hit w m h) \<subseteq> insert h (fst ` snd ` set m)"
proof (cases "map_get m (hit_key h)")
  case None
  then have "pg_add_semantic_hit w m h = map_set m (hit_key h) (h, score h * w)"
    by (simp add: pg_add_semantic_hit_def)
  then show ?thesis using values_map_set[of m "hit_key h" h "score h * w"] by (simp only:)
next
  case (Some p)
  obtain e sc where p: "p = (e, sc)" by (cases p)
  with Some have "(hit_key h, e, sc) \<in> set m" by (simp add: map_get_in_set)
  then have "fst (snd (hit_key h, e, sc)) \<in> fst ` snd ` set m"
    by (intro imageI)
  then have e: "e \<in> fst ` snd ` set m" by simp
  have eq: "pg_add_semantic_hit w m h = map_set m (hit_key h) (e, sc + score h * w)"
    using Some p by (simp add: pg_add_semantic_hit_def)
  have "fst ` snd ` set (map_set m (hit_key h) (e, sc + score h * w))
      \<subseteq> insert e (fst ` snd ` set m)"
    by (rule values_map_set)
  also have "\<dots> \<subseteq> insert h (fst ` snd ` set m)"
    using e by (intro insert_subsetI subset_insertI) (rule insertI2)
  finally show ?thesis unfolding eq .
qed

lemma pg_semantic_fold_hits:
  "fst ` snd ` set (foldl (pg_add_semantic_hit w) m hits) \<subseteq> fst ` snd ` set m \<union> set hits"
proof (induction hits arbitrary: m)
  case Nil
  show ?case unfolding foldl_Nil by (rule Un_upper1)
next
  case (Cons h hs)
  have "fst ` snd ` set (foldl (pg_add_semantic_hit w) (pg_add_semantic_hit w m h) hs)
      \<subseteq> fst ` snd ` set (pg_add_semantic_hit w m h) \<union> set hs"
    by (rule Cons)
  then have "fst ` snd ` set (foldl (pg_add_semantic_hit w) (pg_add_semantic_hit w m h) hs)
      \<subseteq> fst ` snd ` set m \<union> insert h (set hs)"
    using pg_semantic_step_hits by (rule subset_insert_step)
  then show ?case unfolding foldl_Cons list.set .
qed

lemma pg_merge_hits_sources:
  "fst ` snd ` set (pg_merge_hits kw sem wk ws) \<subseteq> set kw \<union> set sem"
proof -
  let ?K = "foldl (pg_add_keyword_hit wk) [] kw"
  have k: "fst ` snd ` set ?K \<subseteq> set kw"
    using pg_keyword_fold_hits[of wk "[]" kw] by simp
  have "fst ` snd ` set (foldl (pg_add_semantic_hit ws) ?K sem) \<subseteq> fst ` snd ` set ?K \<union> set sem"
    by (rule pg_semantic_fold_hits)
  with k show ?thesis unfolding pg_merge_hits_def by blast
qed

lemma pg_rank_hits_sources:
  assumes "h \<in> set (pg_rank_hits off n m)"
  shows "\<exists>h0 sc. h0 \<in> fst ` snd ` set m \<and> h = h0\<lparr>score := sc\<rparr>"
proof -
  from assms obtain h0 sc where
    p: "(h0, sc) \<in> set (take n (drop off (sort_key (\<lambda>(hit, sc). - sc) (map snd m))))"
    and h: "h = h0\<lparr>score := sc\<rparr>"
    by (auto simp: pg_rank_hits_def)
  from p have "(h0, sc) \<in> set (sort_key (\<lambda>(hit, sc). - sc) (map snd m))"
    by (meson in_set_dropD in_set_takeD)
  then have "(h0, sc) \<in> snd ` set m" by simp
  then have "fst (h0, sc) \<in> fst ` snd ` set m" by (rule imageI)
  then have "h0 \<in> fst ` snd ` set m" by simp
  then have "h0 \<in> fst ` snd ` set m \<and> h = h0\<lparr>score := sc\<rparr>" using h by (rule conjI)
  then show ?thesis by (intro exI)
qed

lemma searchHybrid_hits:
  assumes "h \<in> set (searchHybrid matches rank headline distance d qr queryEmbedding
                       keywordWeight semanticWeight)"
  shows "\<exists>h0 sc. h = h0\<lparr>score := sc\<rparr>
           \<and> (h0 \<in> set (searchKeyword matches rank headline d (qr\<lparr>limit := limit qr * 2\<rparr>))
                \<or> h0 \<in> set (searchSemantic distance d (qr\<lparr>limit := limit qr * 2\<rparr>)
                              queryEmbedding))"
proof -
  define kw where "kw = searchKeyword matches rank headline d (qr\<lparr>limit := limit qr * 2\<rparr>)"
  define sem where
    "sem = searchSemantic distance d (qr\<lparr>limit := limit qr * 2\<rparr>) queryEmbedding"
  define M where "M = pg_merge_hits kw sem keywordWeight semanticWeight"
  from assms have "h \<in> set (pg_rank_hits (offset qr) (limit qr) M)"
    by (simp only: searchHybrid_def M_def kw_def sem_def)
  then have "\<exists>h0 sc. h0 \<in> fst ` snd ` set M \<and> h = h0\<lparr>score := sc\<rparr>"
    by (rule pg_rank_hits_sources)
  then obtain h0 sc where h0: "h0 \<in> fst ` snd ` set M" and h: "h = h0\<lparr>score := sc\<rparr>"
    by (elim exE conjE) (rule that)
  have "fst ` snd ` set M \<subseteq> set kw \<union> set sem"
    unfolding M_def by (rule pg_merge_hits_sources)
  with h0 have "h0 \<in> set kw \<union> set sem" by (rule rev_subsetD)
  then have "h0 \<in> set kw \<or> h0 \<in> set sem" by (simp only: Un_iff)
  with h have "h = h0\<lparr>score := sc\<rparr> \<and> (h0 \<in> set kw \<or> h0 \<in> set sem)" by (rule conjI)
  then have "\<exists>h0 sc. h = h0\<lparr>score := sc\<rparr> \<and> (h0 \<in> set kw \<or> h0 \<in> set sem)"
    by (intro exI)
  then show ?thesis unfolding kw_def sem_def .
qed

lemma vast_search_throws:
  "vast_searchKeyword VASTDatabaseAdapter_client like vqr
     = Inl (Error (''Keyword search failed: '' @ TypeError_undefined ''executeQuery''))"
  "\<exists>e. vast_searchSemantic VASTDatabaseAdapter_client vdistance vqr queryEmbedding = Inl e"
  "vast_searchHybrid VASTDatabaseAdapter_client like vdistance vqr queryEmbedding
       keywordWeight semanticWeight
     = Inl (Error (''Hybrid search failed: Keyword search failed: ''
                   @ TypeError_undefined ''executeQuery''))"
  by (simp_all add: vast_searchKeyword_def vast_searchSemantic_def vast_searchHybrid_def
      VASTDatabaseAdapter_client_def)

text \<open>
  Claim C1. Every hit of the keyword search is built from a segment of the database and
  its asset such that the segment is ACTIVE, the asset's current version is the segment's
  version and the asset is not tombstoned. Every hit of the semantic search is built from
  an embedding, its segment and the asset such that embedding and segment are ACTIVE, the
  asset's current version is their version and the asset is not tombstoned. Every hit of
  the hybrid search is such a keyword hit or such a semantic hit, with the merged score.
  The three search methods of the VAST adapter throw on every call and so return no hit
  at all.
\<close>

theorem search_hits_active_current:
  "(\<forall>h \<in> set (searchKeyword matches rank headline d qr).
      \<exists>s a. h = keyword_hit rank headline (query qr) (s, a)
        \<and> s \<in> set (transcript_segments d) \<and> a \<in> set (media_assets d)
        \<and> s_asset_id s = asset_id a \<and> s_visibility s = ACTIVE
        \<and> current_version_id a = Some (s_version_id s) \<and> \<not> tombstone a)
   \<and> (\<forall>h \<in> set (searchSemantic distance d qr queryEmbedding).
      \<exists>e s a. h = semantic_hit distance queryEmbedding (e, s, a)
        \<and> e \<in> set (transcript_embeddings d) \<and> s \<in> set (transcript_segments d)
        \<and> a \<in> set (media_assets d) \<and> e_asset_id e = asset_id a
        \<and> e_segment_id e = segment_id s
        \<and> e_visibility e = ACTIVE \<and> s_visibility s = ACTIVE
        \<and> current_version_id a = Some (e_version_id e)
        \<and> s_version_id s = e_version_id e \<and> \<not> tombstone a)
   \<and> (\<forall>h \<in> set (searchHybrid matches rank headline distance d qr queryEmbedding
                      keywordWeight semanticWeight).
      \<exists>sc.
        (\<exists>s a. h = (keyword_hit rank headline (query qr) (s, a))\<lparr>score := sc\<rparr>
           \<and> s \<in> set (transcript_segments d) \<and> a \<in> set (media_assets d)
           \<and> s_asset_id s = asset_id a \<and> s_visibility s = ACTIVE
           \<and> current_version_id a = Some (s_version_id s) \<and> \<not> tombstone a)
        \<or> (\<exists>e s a. h = (semantic_hit distance queryEmbedding (e, s, a))\<lparr>score := sc\<rparr>
           \<and> e \<in> set (transcript_embeddings d) \<and> s \<in> set (transcript_segments d)
           \<and> a \<in> set (media_assets d) \<and> e_asset_id e = asset_id a
           \<and> e_segment_id e = segment_id s
           \<and> e_visibility e = ACTIVE \<and> s_visibility s = ACTIVE
           \<and> current_version_id a = Some (e_version_id e)
           \<and> s_version_id s = e_version_id e \<and> \<not> tombstone a))
   \<and> (\<exists>e. vast_searchKeyword VASTDatabaseAdapter_client like vqr = Inl e)
   \<and> (\<exists>e. vast_searchSemantic VASTDatabaseAdapter_client vdistance vqr queryEmbedding = Inl e)
   \<and> (\<exists>e. vast_searchHybrid VASTDatabaseAdapter_client like vdistance vqr queryEmbedding
              keywordWeight semanticWeight = Inl e)"
proof (intro conjI ballI)
  fix h
  assume "h \<in> set (searchKeyword matches rank headline d qr)"
  then show "\<exists>s a. h = keyword_hit rank headline (query qr) (s, a)
        \<and> s \<in> set (transcript_segments d) \<and> a \<in> set (media_assets d)
        \<and> s_asset_id s = asset_id a \<and> s_visibility s = ACTIVE
        \<and> current_version_id a = Some (s_version_id s) \<and> \<not> tombstone a"
    by (rule searchKeyword_hits)
next
  fix h
  assume "h \<in> set (searchSemantic distance d qr queryEmbedding)"
  then show "\<exists>e s a. h = semantic_hit distance queryEmbedding (e, s, a)
        \<and> e \<in> set (transcript_embeddings d) \<and> s \<in> set (transcript_segments d)
        \<and> a \<in> set (media_assets d) \<and> e_asset_id e = asset_id a
        \<and> e_segment_id e = segment_id s
        \<and> e_visibility e = ACTIVE \<and> s_visibility s = ACTIVE
        \<and> current_version_id a = Some (e_version_id e)
        \<and> s_version_id s = e_version_id e \<and> \<not> tombstone a"
    by (rule searchSemantic_hits)
next
  fix h
  define qr2 where "qr2 = qr\<lparr>limit := limit qr * 2\<rparr>"
  let ?K = "\<lambda>h s a. h = keyword_hit rank headline (query qr) (s, a)
           \<and> s \<in> set (transcript_segments d) \<and> a \<in> set (media_assets d)
           \<and> s_asset_id s = asset_id a \<and> s_visibility s = ACTIVE
           \<and> current_version_id a = Some (s_version_id s) \<and> \<not> tombstone a"
  let ?K' = "\<lambda>sc s a. h = (keyword_hit rank headline (query qr) (s, a))\<lparr>score := sc\<rparr>
           \<and> s \<in> set (transcript_segments d) \<and> a \<in> set (media_assets d)
           \<and> s_asset_id s = asset_id a \<and> s_visibility s = ACTIVE
           \<and> current_version_id a = Some (s_version_id s) \<and> \<not> tombstone a"
  let ?S = "\<lambda>h e s a. h = semantic_hit distance queryEmbedding (e, s, a)
           \<and> e \<in> set (transcript_embeddings d) \<and> s \<in> set (transcript_segments d)
           \<and> a \<in> set (media_assets d) \<and> e_asset_id e = asset_id a
           \<and> e_segment_id e = segment_id s
           \<and> e_visibility e = ACTIVE \<and> s_visibility s = ACTIVE
           \<and> current_version_id a = Some (e_version_id e)
           \<and> s_version_id s = e_version_id e \<and> \<not> tombstone a"
  let ?S' = "\<lambda>sc e s a. h = (semantic_hit distance queryEmbedding (e, s, a))\<lparr>score := sc\<rparr>
           \<and> e \<in> set (transcript_embeddings d) \<and> s \<in> set (transcript_segments d)
           \<and> a \<in> set (media_assets d) \<and> e_asset_id e = asset_id a
           \<and> e_segment_id e = segment_id s
           \<and> e_visibility e = ACTIVE \<and> s_visibility s = ACTIVE
           \<and> current_version_id a = Some (e_version_id e)
           \<and> s_version_id s = e_version_id e \<and> \<not> tombstone a"
  assume "h \<in> set (searchHybrid matches rank headline distance d qr queryEmbedding
                      keywordWeight semanticWeight)"
  then have "\<exists>h0 sc. h = h0\<lparr>score := sc\<rparr>
           \<and> (h0 \<in> set (searchKeyword matches rank headline d qr2)
                \<or> h0 \<in> set (searchSemantic distance d qr2 queryEmbedding))"
    unfolding qr2_def by (rule searchHybrid_hits)
  then obtain h0 sc where h: "h = h0\<lparr>score := sc\<rparr>"
    and src: "h0 \<in> set (searchKeyword matches rank headline d qr2)
                \<or> h0 \<in> set (searchSemantic distance d qr2 queryEmbedding)"
    by (elim exE conjE) (rule that)
  have q: "query qr2 = query qr" by (simp add: qr2_def)
  from src have "(\<exists>s a. ?K' sc s a) \<or> (\<exists>e s a. ?S' sc e s a)"
  proof
    assume "h0 \<in> set (searchKeyword matches rank headline d qr2)"
    then have "\<exists>s a. ?K h0 s a" unfolding q[symmetric] by (rule searchKeyword_hits)
    then obtain s a where "?K h0 s a" by (elim exE) (rule that)
    then have "?K' sc s a" unfolding h by simp
    then have "\<exists>s a. ?K' sc s a" by (intro exI)
    then show ?thesis by (rule disjI1)
  next
    assume "h0 \<in> set (searchSemantic distance d qr2 queryEmbedding)"
    then have "\<exists>e s a. ?S h0 e s a" by (rule searchSemantic_hits)
    then obtain e s a where "?S h0 e s a" by (elim exE) (rule that)
    then have "?S' sc e s a" unfolding h by simp
    then have "\<exists>e s a. ?S' sc e s a" by (intro exI)
    then show ?thesis by (rule disjI2)
  qed
  then show "\<exists>sc. (\<exists>s a. ?K' sc s a) \<or> (\<exists>e s a. ?S' sc e s a)" by (intro exI)
next
  show "\<exists>e. vast_searchKeyword VASTDatabaseAdapter_client like vqr = Inl e"
    by (simp add: vast_search_throws)
  show "\<exists>e. vast_searchSemantic VASTDatabaseAdapter_client vdistance vqr queryEmbedding = Inl e"
    by (rule vast_search_throws)
  show "\<exists>e. vast_searchHybrid VASTDatabaseAdapter_client like vdistance vqr queryEmbedding
              keywordWeight semanticWeight = Inl e"
    by (simp add: vast_search_throws)
qed

lemma cosine_one: "calculateCosineSimilarity [1] [1] = 1"
  by (simp add: calculateCosineSimilarity_def)

lemmas search_simps =
  search_keyword_rows_def segments_join_assets_def keyword_where_def
  search_semantic_rows_def embeddings_join_def semantic_where_def
  or_null_def truthy_def filter_ok_def keyword_hit_def semantic_hit_def
  matches_plain_def rank_tenth_def headline_plain_def cosine_distance_def cosine_one
  example_search_def example_search_hit_def

lemma searchKeyword_example:
  "searchKeyword matches_plain rank_tenth headline_plain example_db (example_search ''hello'')
     = [example_search_hit (1 / 10)]"
  "searchKeyword matches_plain rank_tenth headline_plain example_db
       ((example_search ''hello'')\<lparr>limit := limit (example_search ''hello'') * 2\<rparr>)
     = [example_search_hit (1 / 10)]"
  "searchKeyword matches_plain rank_tenth headline_plain example_db (example_search ''goodbye'')
     = []"
  by (simp_all add: searchKeyword_def search_simps example_db_simps)

lemma searchSemantic_example:
  "searchSemantic cosine_distance example_db (example_search ''hello'') [1]
     = [example_search_hit 1]"
  "searchSemantic cosine_distance example_db
       ((example_search ''hello'')\<lparr>limit := limit (example_search ''hello'') * 2\<rparr>) [1]
     = [example_search_hit 1]"
  by (simp_all add: searchSemantic_def search_simps example_db_simps)

lemma toString10_0: "toString10 0 = ''0''"
  by (simp add: toString10_def digits_of.simps digit_char_def)

lemma searchHybrid_example:
  "searchHybrid matches_plain rank_tenth headline_plain cosine_distance example_db
       (example_search ''hello'') [1] (1 / 2) (1 / 2)
     = [example_search_hit (11 / 20)]"
  unfolding searchHybrid_def searchKeyword_example searchSemantic_example
  by (simp add: pg_rank_hits_def pg_merge_hits_def pg_add_keyword_hit_def
      pg_add_semantic_hit_def hit_key_def toString10_0 example_search_hit_def
      example_search_def)

text \<open>
  Witness for C1: the example database holds the ACTIVE segment \<open>hello world\<close> of the
  current version \<open>v1\<close>, with an ACTIVE embedding, and the STAGING segment \<open>goodbye\<close>
  of \<open>v2\<close>, with a STAGING embedding. The three searches for \<open>hello\<close> return the hit of
  the first segment; the keyword search for \<open>goodbye\<close> returns nothing.
\<close>

theorem search_hits_active_current_witness:
  "searchKeyword matches_plain rank_tenth headline_plain example_db (example_search ''hello'')
     = [example_search_hit (1 / 10)]
   \<and> (\<exists>s a. example_search_hit (1 / 10)
              = keyword_hit rank_tenth headline_plain (query (example_search ''hello'')) (s, a)
        \<and> s \<in> set (transcript_segments example_db) \<and> a \<in> set (media_assets example_db)
        \<and> s_asset_id s = asset_id a \<and> s_visibility s = ACTIVE
        \<and> current_version_id a = Some (s_version_id s) \<and> \<not> tombstone a)
   \<and> searchSemantic cosine_distance example_db (example_search ''hello'') [1]
     = [example_search_hit 1]
   \<and> (\<exists>e s a. example_search_hit 1 = semantic_hit cosine_distance [1] (e, s, a)
        \<and> e \<in> set (transcript_embeddings example_db)
        \<and> s \<in> set (transcript_segments example_db)
        \<and> a \<in> set (media_assets example_db) \<and> e_asset_id e = asset_id a
        \<and> e_segment_id e = segment_id s
        \<and> e_visibility e = ACTIVE \<and> s_visibility s = ACTIVE
        \<and> current_version_id a = Some (e_version_id e)
        \<and> s_version_id s = e_version_id e \<and> \<not> tombstone a)
   \<and> searchHybrid matches_plain rank_tenth headline_plain cosine_distance example_db
         (example_search ''hello'') [1] (1 / 2) (1 / 2)
     = [example_search_hit (11 / 20)]
   \<and> (\<exists>sc.
        (\<exists>s a. example_search_hit (11 / 20)
                = (keyword_hit rank_tenth headline_plain (query (example_search ''hello''))
                     (s, a))\<lparr>score := sc\<rparr>
           \<and> s \<in> set (transcript_segments example_db) \<and> a \<in> set (media_assets example_db)
           \<and> s_asset_id s = asset_id a \<and> s_visibility s = ACTIVE
           \<and> current_version_id a = Some (s_version_id s) \<and> \<not> tombstone a)
        \<or> (\<exists>e s a. example_search_hit (11 / 20)
                = (semantic_hit cosine_distance [1] (e, s, a))\<lparr>score := sc\<rparr>
           \<and> e \<in> set (transcript_embeddings example_db)
           \<and> s \<in> set (transcript_segments example_db)
           \<and> a \<in> set (media_assets example_db) \<and> e_asset_id e = asset_id a
           \<and> e_segment_id e = segment_id s
           \<and> e_visibility e = ACTIVE \<and> s_visibility s = ACTIVE
           \<and> current_version_id a = Some (e_version_id e)
           \<and> s_version_id s = e_version_id e \<and> \<not> tombstone a))
   \<and> map (\<lambda>s. (s_text s, s_version_id s, s_visibility s)) (transcript_segments example_db)
     = [(''hello world'', ''v1'', ACTIVE), (''goodbye'', ''v2'', STAGING)]
   \<and> searchKeyword matches_plain rank_tenth headline_plain example_db (example_search ''goodbye'')
     = []"
proof -
  note all = search_hits_active_current
    [where matches = matches_plain and rank = rank_tenth and headline = headline_plain
       and d = example_db and qr = "example_search ''hello''" and distance = cosine_distance
       and queryEmbedding = "[1]" and keywordWeight = "1 / 2" and semanticWeight = "1 / 2"]
  have kin: "example_search_hit (1 / 10)
      \<in> set (searchKeyword matches_plain rank_tenth headline_plain example_db
                (example_search ''hello''))"
    by (simp add: searchKeyword_example)
  note k = all[THEN conjunct1, THEN bspec, OF kin]
  have sin: "example_search_hit 1
      \<in> set (searchSemantic cosine_distance example_db (example_search ''hello'') [1])"
    by (simp add: searchSemantic_example)
  note s = all[THEN conjunct2, THEN conjunct1, THEN bspec, OF sin]
  have hin: "example_search_hit (11 / 20)
      \<in> set (searchHybrid matches_plain rank_tenth headline_plain cosine_distance example_db
                (example_search ''hello'') [1] (1 / 2) (1 / 2))"
    by (simp add: searchHybrid_example)
  note h = all[THEN conjunct2, THEN conjunct2, THEN conjunct1, THEN bspec, OF hin]
  have segs: "map (\<lambda>s. (s_text s, s_version_id s, s_visibility s))
        (transcript_segments example_db)
     = [(''hello world'', ''v1'', ACTIVE), (''goodbye'', ''v2'', STAGING)]"
    by (simp add: example_db_simps)
  show ?thesis
    by (intro conjI)
      (rule searchKeyword_example k searchSemantic_example s searchHybrid_example h segs)+
qed

subsection \<open>Enqueueing\<close>

text \<open>
  Claim C9. The queue adapter passes \<^verbatim>\<open>jobId: job.job_id\<close> to the queue and never reads
  \<^verbatim>\<open>idempotency_key\<close>. Two enqueue calls with the jobs \<open>j1\<close> and \<open>j9\<close>, which carry
  the same idempotency key \<open>a1:v2:0\<close>, leave both jobs in the queue; the same holds when
  the second call is \<^verbatim>\<open>enqueueJobWithDelay\<close>.
\<close>

theorem enqueue_same_idempotency_key_both_queued:
  "idempotency_key duplicate_job = idempotency_key (example_job 0)
   \<and> job_id duplicate_job \<noteq> job_id (example_job 0)
   \<and> map fst (queue (enqueueJob duplicate_job (enqueueJob (example_job 0) empty_queues)))
       = [''j1'', ''j9'']
   \<and> map (\<lambda>e. idempotency_key (job_data (snd e)))
         (queue (enqueueJob duplicate_job (enqueueJob (example_job 0) empty_queues)))
       = [''a1:v2:0'', ''a1:v2:0'']
   \<and> map (\<lambda>e. idempotency_key (job_data (snd e)))
         (queue (enqueueJobWithDelay duplicate_job 2000 (enqueueJob (example_job 0) empty_queues)))
       = [''a1:v2:0'', ''a1:v2:0'']"
proof -
  have ten: "toString10 0 = ''0''"
    by (simp add: toString10_def digits_of.simps digit_char_def)
  show ?thesis
    by (simp add: duplicate_job_def example_job_def empty_queues_def enqueueJob_def
        enqueueJobWithDelay_def bull_add_def ten)
qed

subsection \<open>Triage\<close>

text \<open>
  The guards of \<^verbatim>\<open>retryAsset\<close>: the call throws and changes nothing when the asset does
  not exist, is not QUARANTINED or has no current version.
\<close>

lemma retryAsset_guards:
  assumes "getAsset (db st) assetId = None
       \<or> (\<exists>a. getAsset (db st) assetId = Some a
              \<and> (status a \<noteq> QUARANTINED \<or> current_version_id a = None))"
  shows "\<exists>e. retryAsset st assetId now uuid = (st, Some e)"
  using assms by (auto simp: retryAsset_def truthy_def)

text \<open>
  Past the guards the call throws as well: it writes \<^verbatim>\<open>PENDING_RETRY\<close>, which the SQL
  type \<^verbatim>\<open>asset_status\<close> rejects, before it enqueues the job.
\<close>

lemma retryAsset_past_guards:
  assumes "getAsset (db st) assetId = Some a" and "status a = QUARANTINED"
    and "truthy (current_version_id a)"
  shows "retryAsset st assetId now uuid = (st, Some (invalid_enum_value ''PENDING_RETRY''))"
  using assms by (simp add: retryAsset_def Let_def updateAssetStatus_PENDING_RETRY)

lemma getAsset_quarantined:
  "getAsset (db (quarantined_system current)) ''a1'' = Some (quarantined_asset current)"
  by (simp add: quarantined_system_def quarantined_asset_def getAsset_def example_asset_def)

lemma quarantined_asset_fields:
  "status (quarantined_asset current) = QUARANTINED"
  "current_version_id (quarantined_asset current) = current"
  by (simp_all add: quarantined_asset_def)

text \<open>
  Claim C10. The example asset is QUARANTINED and its current version is \<open>v1\<close>, so the
  three guards of \<^verbatim>\<open>retryAsset\<close> pass. The call then throws at
  \<^verbatim>\<open>updateAssetStatus\<close> and leaves the state as it was: no job is enqueued, and the asset
  stays QUARANTINED with its triage state and its last error.
\<close>

theorem retryAsset_throws_for_quarantined_asset:
  "map (\<lambda>a. (asset_id a, status a, current_version_id a))
       (media_assets (db (quarantined_system (Some ''v1''))))
     = [(''a1'', QUARANTINED, Some ''v1'')]
   \<and> retry_quarantined (Some ''v1'')
       = (quarantined_system (Some ''v1''), Some (invalid_enum_value ''PENDING_RETRY''))
   \<and> queue (q (fst (retry_quarantined (Some ''v1'')))) = []
   \<and> map (\<lambda>a. (status a, triage_state a, last_error a))
         (media_assets (db (fst (retry_quarantined (Some ''v1'')))))
       = [(QUARANTINED, Some NEEDS_MEDIA_FIX, Some ''ASR failed: unsupported codec'')]"
proof -
  have before: "map (\<lambda>a. (asset_id a, status a, current_version_id a))
       (media_assets (db (quarantined_system (Some ''v1''))))
     = [(''a1'', QUARANTINED, Some ''v1'')]"
    by (simp add: quarantined_system_def quarantined_asset_def example_asset_def)
  have version: "truthy (current_version_id (quarantined_asset (Some ''v1'')))"
    by (simp add: quarantined_asset_fields truthy_def)
  have thrown: "retry_quarantined (Some ''v1'')
       = (quarantined_system (Some ''v1''), Some (invalid_enum_value ''PENDING_RETRY''))"
    unfolding retry_quarantined_def
    using getAsset_quarantined quarantined_asset_fields(1) version
    by (rule retryAsset_past_guards)
  have queue: "queue (q (fst (retry_quarantined (Some ''v1'')))) = []"
    unfolding thrown by (simp add: quarantined_system_def empty_queues_def)
  have asset: "map (\<lambda>a. (status a, triage_state a, last_error a))
         (media_assets (db (fst (retry_quarantined (Some ''v1'')))))
       = [(QUARANTINED, Some NEEDS_MEDIA_FIX, Some ''ASR failed: unsupported codec'')]"
    unfolding thrown by (simp add: quarantined_system_def quarantined_asset_def)
  show ?thesis
    by (intro conjI) (rule before thrown queue asset)+
qed

subsection \<open>Ingest\<close>

lemma split_acc_nonempty: "split_acc sep cur s \<noteq> []"
  by (induction s arbitrary: cur) auto

lemma split_acc_last:
  "last (split_acc sep cur s)
     = (if sep \<in> set s then rev (takeWhile (\<lambda>c. c \<noteq> sep) (rev s)) else rev cur @ s)"
proof (induction s arbitrary: cur)
  case Nil
  then show ?case by simp
next
  case (Cons c s)
  show ?case
  proof (cases "c = sep")
    case True
    have ne: "split_acc sep [] s \<noteq> []" by (rule split_acc_nonempty)
    show ?thesis
    proof (cases "sep \<in> set s")
      case True
      with \<open>c = sep\<close> ne Cons[of "[]"] show ?thesis
        by (auto simp: takeWhile_append)
    next
      case False
      then have "takeWhile (\<lambda>c. c \<noteq> sep) (rev s) = rev s"
        by (auto simp: takeWhile_eq_all_conv)
      with False \<open>c = sep\<close> ne Cons[of "[]"] show ?thesis
        by (simp add: takeWhile_append)
    qed
  next
    case False
    show ?thesis
    proof (cases "sep \<in> set s")
      case True
      with False Cons[of "c # cur"] show ?thesis
        by (auto simp: takeWhile_append)
    next
      case no: False
      with False Cons[of "c # cur"] show ?thesis by simp
    qed
  qed
qed

text \<open>The text after the last dot of a key that has one.\<close>

lemma last_split_dot:
  "last (split (CHR ''.'') objectKey)
     = (if CHR ''.'' \<in> set objectKey
        then rev (takeWhile (\<lambda>c. c \<noteq> CHR ''.'') (rev objectKey)) else objectKey)"
  by (simp add: split_def split_acc_last)

lemma SUPPORTED_FORMATS_list:
  "SUPPORTED_FORMATS = [''wav'', ''mp3'', ''aac'', ''flac'', ''mp4'', ''mov'', ''mxf'']"
  by (simp add: SUPPORTED_FORMATS_def SUPPORTED_AUDIO_FORMATS_def SUPPORTED_VIDEO_FORMATS_def)

lemma isSupportedMediaFormat_iff:
  "isSupportedMediaFormat objectKey \<longleftrightarrow>
     toLowerCase (if CHR ''.'' \<in> set objectKey
                  then rev (takeWhile (\<lambda>c. c \<noteq> CHR ''.'') (rev objectKey)) else objectKey)
       \<in> set SUPPORTED_FORMATS"
proof -
  have "[] \<notin> set SUPPORTED_FORMATS" by (simp add: SUPPORTED_FORMATS_list)
  then show ?thesis
    unfolding isSupportedMediaFormat_def Let_def last_split_dot by auto
qed

text \<open>
  The two silent returns of \<^verbatim>\<open>handleObjectCreated\<close>: an unsupported key, and an asset
  that already has the computed version.
\<close>

lemma handleObjectCreated_unsupported:
  assumes "\<not> isSupportedMediaFormat objectKey"
  shows "handleObjectCreated st bkt objectKey etagArg sizeArg metadata selectedEngine now
           assetUuid lineageUuid jobUuid = (st, None)"
  using assms by (simp add: handleObjectCreated_def)

lemma handleObjectCreated_existing_version:
  assumes "isSupportedMediaFormat objectKey"
    and "getAssetByKey (db st) bkt objectKey = Some asset"
    and "getVersion (db st)
           (computeVersionId
              (if \<not> truthy etagArg \<or> sizeArg = None then m_etag m else the etagArg)
              (if \<not> truthy etagArg \<or> sizeArg = None then m_size m else the sizeArg)
              (lastModified m) now) = Some version"
  shows "handleObjectCreated st bkt objectKey etagArg sizeArg (Some m) selectedEngine now
           assetUuid lineageUuid jobUuid = (st, None)"
  using assms by (simp add: handleObjectCreated_def Let_def)

lemma supported_wav: "isSupportedMediaFormat ''wav''"
  by (simp add: isSupportedMediaFormat_def split_def SUPPORTED_FORMATS_list toLowerCase_def
      toLowerCase_char_def)

text \<open>
  Claim C8. \<^verbatim>\<open>isSupportedMediaFormat\<close> takes the last piece of
  \<^verbatim>\<open>filename.split('.')\<close>, which for a key without any dot is the whole key. The key
  \<open>wav\<close> has no extension, yet it is accepted: the event creates an asset, a version and
  a job. (For keys with a dot the test is the one the claim states, see
  \<open>isSupportedMediaFormat_iff\<close>, and both silent returns hold, see
  \<open>handleObjectCreated_unsupported\<close> and \<open>handleObjectCreated_existing_version\<close>.)
\<close>

theorem handleObjectCreated_accepts_key_without_extension:
  "CHR ''.'' \<notin> set ''wav''
   \<and> isSupportedMediaFormat ''wav''
   \<and> snd (ingest_object empty_system ''wav'' 1000 ''a1'' ''l1'' ''j1'') = None
   \<and> map object_key
       (media_assets (db (fst (ingest_object empty_system ''wav'' 1000 ''a1'' ''l1'' ''j1''))))
       = [''wav'']
   \<and> map version_id
       (asset_versions (db (fst (ingest_object empty_system ''wav'' 1000 ''a1'' ''l1'' ''j1''))))
       = [''v_by2nnp_rs'']
   \<and> map fst (queue (q (fst (ingest_object empty_system ''wav'' 1000 ''a1'' ''l1'' ''j1''))))
       = [''j1'']"
  by (simp add: ingest_object_def handleObjectCreated_def supported_wav example_metadata_def
      truthy_def computeVersionId_E1 empty_system_def getAssetByKey_def upsertAsset_def
      getAsset_def create_version_and_job_def createVersion_def getVersion_def
      enqueueJob_def bull_add_def Let_def)

subsection \<open>Hybrid search\<close>

lemma searchKeyword_tie_db:
  "searchKeyword matches_plain rank_tenth headline_plain tie_db
       ((example_search ''hello'')\<lparr>limit := limit (example_search ''hello'') * 2\<rparr>)
     = [tie_hit ''hello'' 0 (1 / 10)]"
  by (simp add: searchKeyword_def search_simps example_db_simps tie_db_def tie_hit_def)

lemma searchSemantic_tie_db:
  "searchSemantic cosine_distance tie_db
       ((example_search ''hello'')\<lparr>limit := limit (example_search ''hello'') * 2\<rparr>) [1]
     = [tie_hit ''other'' 1000 1]"
  by (simp add: searchSemantic_def search_simps example_db_simps tie_db_def tie_hit_def)

lemma toString10_1000: "toString10 1000 = ''1000''"
  by (simp add: toString10_def digits_of.simps digit_char_def)

lemma searchKeyword_overlap_db:
  "searchKeyword matches_plain rank_tenth headline_plain overlap_db
       ((example_search ''hello'')\<lparr>limit := limit (example_search ''hello'') * 2\<rparr>)
     = [tie_hit ''hello'' 0 (1 / 10)]"
  by (simp add: searchKeyword_def search_simps example_db_simps overlap_db_def tie_hit_def)

lemma searchSemantic_overlap_db:
  "searchSemantic cosine_distance overlap_db
       ((example_search ''hello'')\<lparr>limit := limit (example_search ''hello'') * 2\<rparr>) [1]
     = [tie_hit ''other'' 0 1]"
  by (simp add: searchSemantic_def search_simps example_db_simps overlap_db_def tie_hit_def)

text \<open>
  Counterexample to C6 as stated, at two inputs.

  The order of hits with equal combined score. In \<open>tie_db\<close> the query \<open>hello\<close> has
  the keyword hit of the segment \<open>sA\<close>, with the \<^verbatim>\<open>ts_rank\<close> score 1/10, and the
  semantic hit of the segment \<open>sB\<close>, with the score 1. With the weights \<open>Wk = 1\<close> and
  \<open>Ws = 1/10\<close> both have the combined score 1/10. The claim puts the hit with the higher
  raw semantic score first, which is the hit of \<open>sB\<close>; the hybrid search returns the
  keyword hit first.

  Fusion per segment id. In \<open>overlap_db\<close> the two segments start at the same time. The
  segment \<open>sA\<close> is in the keyword results only and \<open>sB\<close> in the semantic results
  only, so with \<open>Wk = Ws = 1/2\<close> the claim gives \<open>sA\<close> the score 1/20 and \<open>sB\<close> the
  score 1/2. The hybrid search returns one hit, with the text of \<open>sA\<close> and the score
  11/20.
\<close>

theorem searchHybrid_counterexample:
  "searchKeyword matches_plain rank_tenth headline_plain tie_db
       ((example_search ''hello'')\<lparr>limit := limit (example_search ''hello'') * 2\<rparr>)
     = [tie_hit ''hello'' 0 (1 / 10)]
   \<and> searchSemantic cosine_distance tie_db
       ((example_search ''hello'')\<lparr>limit := limit (example_search ''hello'') * 2\<rparr>) [1]
     = [tie_hit ''other'' 1000 1]
   \<and> searchHybrid matches_plain rank_tenth headline_plain cosine_distance tie_db
         (example_search ''hello'') [1] 1 (1 / 10)
     = [tie_hit ''hello'' 0 (1 / 10), tie_hit ''other'' 1000 (1 / 10)]
   \<and> searchHybrid matches_plain rank_tenth headline_plain cosine_distance tie_db
         (example_search ''hello'') [1] 1 (1 / 10)
     \<noteq> [tie_hit ''other'' 1000 (1 / 10), tie_hit ''hello'' 0 (1 / 10)]
   \<and> map segment_id (transcript_segments overlap_db) = [''sA'', ''sB'']
   \<and> map e_segment_id (transcript_embeddings overlap_db) = [''sB'']
   \<and> searchKeyword matches_plain rank_tenth headline_plain overlap_db
       ((example_search ''hello'')\<lparr>limit := limit (example_search ''hello'') * 2\<rparr>)
     = [tie_hit ''hello'' 0 (1 / 10)]
   \<and> searchSemantic cosine_distance overlap_db
       ((example_search ''hello'')\<lparr>limit := limit (example_search ''hello'') * 2\<rparr>) [1]
     = [tie_hit ''other'' 0 1]
   \<and> searchHybrid matches_plain rank_tenth headline_plain cosine_distance overlap_db
         (example_search ''hello'') [1] (1 / 2) (1 / 2)
     = [tie_hit ''hello'' 0 (11 / 20)]"
proof -
  have hyb: "searchHybrid matches_plain rank_tenth headline_plain cosine_distance tie_db
         (example_search ''hello'') [1] 1 (1 / 10)
     = [tie_hit ''hello'' 0 (1 / 10), tie_hit ''other'' 1000 (1 / 10)]"
    unfolding searchHybrid_def searchKeyword_tie_db searchSemantic_tie_db
    by (simp add: pg_rank_hits_def pg_merge_hits_def pg_add_keyword_hit_def
        pg_add_semantic_hit_def hit_key_def toString10_0 toString10_1000 tie_hit_def
        example_search_def)
  have ne: "searchHybrid matches_plain rank_tenth headline_plain cosine_distance tie_db
         (example_search ''hello'') [1] 1 (1 / 10)
     \<noteq> [tie_hit ''other'' 1000 (1 / 10), tie_hit ''hello'' 0 (1 / 10)]"
    unfolding hyb by (simp add: tie_hit_def)
  have ids: "map segment_id (transcript_segments overlap_db) = [''sA'', ''sB'']"
    "map e_segment_id (transcript_embeddings overlap_db) = [''sB'']"
    by (simp_all add: overlap_db_def example_segment_def example_embedding_def)
  have fused: "searchHybrid matches_plain rank_tenth headline_plain cosine_distance overlap_db
         (example_search ''hello'') [1] (1 / 2) (1 / 2)
     = [tie_hit ''hello'' 0 (11 / 20)]"
    unfolding searchHybrid_def searchKeyword_overlap_db searchSemantic_overlap_db
    by (simp add: pg_rank_hits_def pg_merge_hits_def pg_add_keyword_hit_def
        pg_add_semantic_hit_def hit_key_def toString10_0 tie_hit_def example_search_def)
  show ?thesis
    by (intro conjI)
      (rule searchKeyword_tie_db searchSemantic_tie_db hyb ne ids searchKeyword_overlap_db
         searchSemantic_overlap_db fused)+
qed

text \<open>The insertion-ordered map and the two merge loops.\<close>

lemma map_get_map_set:
  "map_get (map_set m k v) k' = (if k' = k then Some v else map_get m k')"
  by (induction m) auto

lemma keys_map_set:
  "map fst (map_set m k v) = (if k \<in> set (map fst m) then map fst m else map fst m @ [k])"
  by (induction m) (force split: if_splits)+

lemma find_append_case:
  "find P (xs @ ys) = (case find P xs of None \<Rightarrow> find P ys | Some x \<Rightarrow> Some x)"
  by (induction xs) simp_all

lemma map_get_pg_add_keyword_hit:
  "map_get (pg_add_keyword_hit w m h) k
     = (if hit_key h = k then Some (h, score h * w) else map_get m k)"
  by (auto simp: pg_add_keyword_hit_def map_get_map_set)

lemma map_get_pg_add_semantic_hit:
  "map_get (pg_add_semantic_hit w m h) k
     = (if hit_key h = k
        then (case map_get m k of
                Some (h0, sc0) \<Rightarrow> Some (h0, sc0 + score h * w)
              | None \<Rightarrow> Some (h, score h * w))
        else map_get m k)"
  by (auto simp: pg_add_semantic_hit_def map_get_map_set split: option.splits)

lemma map_get_pg_keyword_fold:
  "map_get (foldl (pg_add_keyword_hit w) m kw) k
     = (case find (\<lambda>h. hit_key h = k) (rev kw) of
          Some h \<Rightarrow> Some (h, score h * w)
        | None \<Rightarrow> map_get m k)"
proof (induction kw arbitrary: m)
  case Nil
  show ?case by simp
next
  case (Cons h hs)
  show ?case
    by (simp add: Cons.IH find_append_case map_get_pg_add_keyword_hit split: option.splits)
qed

lemma map_get_pg_semantic_fold:
  "map_get (foldl (pg_add_semantic_hit w) m sem) k
     = (case map_get m k of
          Some (h0, sc0) \<Rightarrow>
            Some (h0, sc0 + sum_list (map (\<lambda>h. score h * w)
                                     (filter (\<lambda>h. hit_key h = k) sem)))
        | None \<Rightarrow>
            (case filter (\<lambda>h. hit_key h = k) sem of
               [] \<Rightarrow> None
             | h # rest \<Rightarrow> Some (h, sum_list (map (\<lambda>h. score h * w) (h # rest)))))"
proof (induction sem arbitrary: m)
  case Nil
  show ?case by (simp split: option.splits)
next
  case (Cons h hs)
  show ?case
    by (simp add: Cons.IH map_get_pg_add_semantic_hit add.assoc
        split: option.splits list.splits)
qed

lemma map_get_pg_merge_hits:
  "map_get (pg_merge_hits kw sem wk ws) k
     = (case find (\<lambda>h. hit_key h = k) (rev kw) of
          Some hk \<Rightarrow>
            Some (hk, score hk * wk
                        + sum_list (map (\<lambda>h. score h * ws) (filter (\<lambda>h. hit_key h = k) sem)))
        | None \<Rightarrow>
            (case filter (\<lambda>h. hit_key h = k) sem of
               [] \<Rightarrow> None
             | h # rest \<Rightarrow> Some (h, sum_list (map (\<lambda>h. score h * ws) (h # rest)))))"
  unfolding pg_merge_hits_def map_get_pg_semantic_fold map_get_pg_keyword_fold
  by (simp split: option.splits)

lemma keys_pg_add_hit:
  "map fst (pg_add_keyword_hit w m h)
     = (if hit_key h \<in> set (map fst m) then map fst m else map fst m @ [hit_key h])"
  "map fst (pg_add_semantic_hit w m h)
     = (if hit_key h \<in> set (map fst m) then map fst m else map fst m @ [hit_key h])"
  by (simp_all only: pg_add_keyword_hit_def pg_add_semantic_hit_def keys_map_set
      split: option.split prod.split, simp_all)

lemma keys_pg_keyword_fold:
  "map fst (foldl (pg_add_keyword_hit w) m hits)
     = foldl (\<lambda>acc k. if k \<in> set acc then acc else acc @ [k]) (map fst m) (map hit_key hits)"
  by (induction hits arbitrary: m) (simp_all only: foldl.simps list.map keys_pg_add_hit)

lemma keys_pg_semantic_fold:
  "map fst (foldl (pg_add_semantic_hit w) m hits)
     = foldl (\<lambda>acc k. if k \<in> set acc then acc else acc @ [k]) (map fst m) (map hit_key hits)"
  by (induction hits arbitrary: m) (simp_all only: foldl.simps list.map keys_pg_add_hit)

lemma keys_pg_merge_hits:
  "map fst (pg_merge_hits kw sem wk ws) = insertion_order (map hit_key (kw @ sem))"
  unfolding pg_merge_hits_def insertion_order_def keys_pg_semantic_fold keys_pg_keyword_fold
  by simp

text \<open>The ranking: a stable sort by descending merged score.\<close>

lemma ranked_sorted:
  fixes xs :: "('a \<times> real) list"
  shows "sorted_wrt (\<lambda>x y. snd x \<ge> snd y) (sort_key (\<lambda>(hit, sc). - sc) xs)"
proof -
  have "sorted (map (\<lambda>(hit, sc). - sc) (sort_key (\<lambda>(hit, sc). - sc) xs))"
    by (rule sorted_sort_key)
  then show ?thesis by (simp add: sorted_map case_prod_beta)
qed

lemma ranked_stable:
  fixes xs :: "('a \<times> real) list"
  shows "filter (\<lambda>x. snd x = c) (sort_key (\<lambda>(hit, sc). - sc) xs)
           = filter (\<lambda>x. snd x = c) xs"
proof -
  have "filter (\<lambda>y. (case y of (hit, sc) \<Rightarrow> - sc) = - c) (sort_key (\<lambda>(hit, sc). - sc) xs)
      = filter (\<lambda>y. (case y of (hit, sc) \<Rightarrow> - sc) = - c) xs"
    by (rule sort_key_stable)
  then show ?thesis by (simp add: case_prod_beta)
qed

text \<open>
  Claim C6, as amended. The hybrid search of the PostgreSQL adapter merges the keyword
  results \<open>kw\<close> and the semantic results \<open>sem\<close> (both fetched with twice the limit)
  under the key \<open>asset_id:start_ms\<close>, not under a segment id, and its hits carry no
  match-type label.
  \<^item> A key that a keyword hit has gets that hit (the last one, if several have the key)
    with the score \<open>K * Wk\<close> plus \<open>S * Ws\<close> for every semantic hit \<open>S\<close> with the key;
    \<open>K\<close> is the \<^verbatim>\<open>ts_rank\<close> score as the keyword search returns it. With no semantic
    hit the score is \<open>K * Wk\<close> alone.
  \<^item> A key that only semantic hits have gets the first of them with the sum of
    \<open>S * Ws\<close> over them.
  \<^item> The keys stand in the order of their first appearance in \<open>kw\<close> followed by
    \<open>sem\<close>.
  \<^item> The result is cut (offset, limit) from the entries sorted by descending merged
    score; entries with equal score keep the order of the keys, and no other tie-break
    is applied.
\<close>

theorem searchHybrid_fusion:
  "(\<forall>k. map_get (pg_merge_hits kw sem wk ws) k
        = (case find (\<lambda>h. hit_key h = k) (rev kw) of
             Some hk \<Rightarrow>
               Some (hk, score hk * wk
                           + sum_list (map (\<lambda>h. score h * ws)
                                        (filter (\<lambda>h. hit_key h = k) sem)))
           | None \<Rightarrow>
               (case filter (\<lambda>h. hit_key h = k) sem of
                  [] \<Rightarrow> None
                | h # rest \<Rightarrow> Some (h, sum_list (map (\<lambda>h. score h * ws) (h # rest))))))
   \<and> map fst (pg_merge_hits kw sem wk ws) = insertion_order (map hit_key (kw @ sem))
   \<and> (\<exists>ranked.
         pg_rank_hits off n (pg_merge_hits kw sem wk ws)
           = map (\<lambda>(hit, sc). hit\<lparr>score := sc\<rparr>) (take n (drop off ranked))
         \<and> sorted_wrt (\<lambda>x y. snd x \<ge> snd y) ranked
         \<and> (\<forall>c. filter (\<lambda>x. snd x = c) ranked
                 = filter (\<lambda>x. snd x = c) (map snd (pg_merge_hits kw sem wk ws))))
   \<and> searchHybrid matches rank headline distance d qr queryEmbedding wk ws
       = pg_rank_hits (offset qr) (limit qr)
           (pg_merge_hits
              (searchKeyword matches rank headline d (qr\<lparr>limit := limit qr * 2\<rparr>))
              (searchSemantic distance d (qr\<lparr>limit := limit qr * 2\<rparr>) queryEmbedding)
              wk ws)"
proof (intro conjI allI)
  fix k
  show "map_get (pg_merge_hits kw sem wk ws) k
        = (case find (\<lambda>h. hit_key h = k) (rev kw) of
             Some hk \<Rightarrow>
               Some (hk, score hk * wk
                           + sum_list (map (\<lambda>h. score h * ws)
                                        (filter (\<lambda>h. hit_key h = k) sem)))
           | None \<Rightarrow>
               (case filter (\<lambda>h. hit_key h = k) sem of
                  [] \<Rightarrow> None
                | h # rest \<Rightarrow> Some (h, sum_list (map (\<lambda>h. score h * ws) (h # rest)))))"
    by (rule map_get_pg_merge_hits)
next
  show "map fst (pg_merge_hits kw sem wk ws) = insertion_order (map hit_key (kw @ sem))"
    by (rule keys_pg_merge_hits)
next
  define M where "M = pg_merge_hits kw sem wk ws"
  define ranked where "ranked = sort_key (\<lambda>(hit, sc). - sc) (map snd M)"
  have r: "pg_rank_hits off n M
           = map (\<lambda>(hit, sc). hit\<lparr>score := sc\<rparr>) (take n (drop off ranked))"
    unfolding pg_rank_hits_def ranked_def ..
  have s: "sorted_wrt (\<lambda>x y. snd x \<ge> snd y) ranked"
    unfolding ranked_def by (rule ranked_sorted)
  have t: "\<forall>c. filter (\<lambda>x. snd x = c) ranked = filter (\<lambda>x. snd x = c) (map snd M)"
    unfolding ranked_def by (intro allI) (rule ranked_stable)
  from r s t have "pg_rank_hits off n M
           = map (\<lambda>(hit, sc). hit\<lparr>score := sc\<rparr>) (take n (drop off ranked))
         \<and> sorted_wrt (\<lambda>x y. snd x \<ge> snd y) ranked
         \<and> (\<forall>c. filter (\<lambda>x. snd x = c) ranked = filter (\<lambda>x. snd x = c) (map snd M))"
    by (intro conjI)
  then show "\<exists>ranked.
         pg_rank_hits off n (pg_merge_hits kw sem wk ws)
           = map (\<lambda>(hit, sc). hit\<lparr>score := sc\<rparr>) (take n (drop off ranked))
         \<and> sorted_wrt (\<lambda>x y. snd x \<ge> snd y) ranked
         \<and> (\<forall>c. filter (\<lambda>x. snd x = c) ranked
                 = filter (\<lambda>x. snd x = c) (map snd (pg_merge_hits kw sem wk ws)))"
    unfolding M_def by (intro exI)
next
  show "searchHybrid matches rank headline distance d qr queryEmbedding wk ws
       = pg_rank_hits (offset qr) (limit qr)
           (pg_merge_hits
              (searchKeyword matches rank headline d (qr\<lparr>limit := limit qr * 2\<rparr>))
              (searchSemantic distance d (qr\<lparr>limit := limit qr * 2\<rparr>) queryEmbedding)
              wk ws)"
    by (rule searchHybrid_def)
qed

end
